theory Spec2Isabelle
  imports Complex_Main "HOL-Library.Char_ord" "HOL-Library.List_Lexorder"
begin

section \<open>The AWS resource monitor (server.js) as a shallow embedding\<close>

text \<open>
  The server polls a cloud provider, classifies every resource it finds and mails a
  report. Everything the provider, the pricing service, the clock and the mail transport
  answer is a field of the environment \<open>env\<close>; the code is a function of it.
  JavaScript numbers are modelled as real numbers (sizes and memory, which the provider
  reports as whole numbers, as naturals), timestamps as milliseconds since the epoch, an
  exception as the left summand of a result, and every \<open>client.send\<close> as an entry
  of a call log, so that "no query is issued" is a statement about that log.
  The provider answers a request by its parameters alone, the clock stands at one instant
  \<open>now\<close> while a request is handled, and a paginated listing ends after finitely many
  pages.
\<close>

subsection \<open>Errors, provider calls and the result type\<close>

datatype error = Error (err_name: string) (err_message: string)

text \<open>A dimension or filter: its name and its value, which the source reads from a
  record field and so may be absent.\<close>

type_synonym dimension = "string \<times> string option"

type_synonym price_filter = "string \<times> string option"

record metric_params =
  StartTime :: int
  EndTime :: int
  Namespace :: string
  MetricName :: string
  Dimensions :: "dimension list"
  Period :: nat
  Stat :: string

record product_params =
  ServiceCode :: string
  Filters :: "price_filter list"
  MaxResults :: nat
  FormatVersion :: string

text \<open>One entry per request sent to the provider; the string is the client's region
  (the bucket name for a location lookup).\<close>

datatype call =
    DescribeRegions
  | DescribeInstances string
  | DescribeVolumes string
  | ListBuckets
  | GetBucketLocation string
  | DescribeDBInstances string
  | ListFunctions string
  | GetMetricData string metric_params
  | GetProducts product_params

text \<open>An awaited computation: what it returned or threw, and the requests it sent.\<close>

type_synonym 'a prov = "(error + 'a) \<times> call list"

definition return_prov :: "'a \<Rightarrow> 'a prov" where
  "return_prov a = (Inr a, [])"

definition throw_prov :: "error \<Rightarrow> 'a prov" where
  "throw_prov e = (Inl e, [])"

definition send_prov :: "call \<Rightarrow> error + 'a \<Rightarrow> 'a prov" where
  "send_prov c r = (r, [c])"

text \<open>Sequencing: an exception skips the rest, the requests already sent stay sent.\<close>

definition bind_prov :: "'a prov \<Rightarrow> ('a \<Rightarrow> 'b prov) \<Rightarrow> 'b prov" where
  "bind_prov m f =
     (case m of
        (Inl e, cs) \<Rightarrow> (Inl e, cs)
      | (Inr a, cs) \<Rightarrow> (case f a of (r, cs') \<Rightarrow> (r, cs @ cs')))"

text \<open>\<open>try { ... } catch (err) { ... }\<close>: the outcome of the block as a value.\<close>

definition try_prov :: "'a prov \<Rightarrow> (error + 'a) prov" where
  "try_prov m = (case m of (r, cs) \<Rightarrow> (Inr r, cs))"

text \<open>\<open>for (let x of xs) body\<close> over the variables \<open>s\<close> the body updates.\<close>

fun for_of :: "'a list \<Rightarrow> ('a \<Rightarrow> 's \<Rightarrow> 's prov) \<Rightarrow> 's \<Rightarrow> 's prov" where
  "for_of [] body s = return_prov s"
| "for_of (x # xs) body s = bind_prov (body x s) (for_of xs body)"

subsection \<open>What the provider returns\<close>

record raw_instance =
  InstanceId :: string
  InstanceType :: string
  State_Name :: string
  LaunchTime :: int

record reservation =
  Instances :: "raw_instance list option"

record raw_volume =
  VolumeId :: string
  VolumeType :: string
  State :: string
  Size :: nat
  CreateTime :: int

record raw_bucket =
  Name :: string
  CreationDate :: int

record raw_db =
  DBInstanceIdentifier :: string
  DBInstanceClass :: string
  Engine :: string
  DBInstanceStatus :: string
  InstanceCreateTime :: int

record raw_function =
  FunctionName :: string
  Runtime :: string
  MemorySize :: nat
  LastModified :: int

text \<open>
  The answers to a paginated request, in the order the client receives them: a failure, a
  page with no continuation token, or a page with a token and the answers that follow. A
  page may lack its result key.
\<close>

datatype 'a pages =
    Failed error
  | Last "'a list option"
  | More "'a list option" "'a pages"

text \<open>An entry of \<open>PriceList\<close>: a document that \<open>JSON.parse\<close> or the property
  accesses reject, or the number \<open>parseFloat\<close> reads from it.\<close>

datatype price_item = Unparsable error | UnitPrice real

text \<open>\<open>toFixed(2)\<close> yields a string: a sign, the digits of a whole number of
  hundredths with a point before the last two, or the exponent notation of a number of
  magnitude at least \<open>10^21\<close>. The string is represented by what it denotes.\<close>

datatype fixed_string = Fixed2 bool nat | Exponential real

record body_line =
  line_service :: string
  line_region :: string
  line_ident :: "string option"
  line_status :: string
  line_cost :: fixed_string

datatype mail_body = ResourceListing "body_line list" | NoUnusedResources

record mail =
  mail_from :: string
  mail_to :: string
  mail_subject :: string
  mail_text :: mail_body

record env =
  now :: int
  emailUser :: "string option"
  emailPass :: "string option"
  receiverEmail :: "string option"
  describeRegions :: "error + string list"
  describeInstances :: "string \<Rightarrow> reservation pages"
  describeVolumes :: "string \<Rightarrow> raw_volume pages"
  listBuckets :: "error + raw_bucket list option"
  getBucketLocation :: "string \<Rightarrow> error + string option"
  describeDBInstances :: "string \<Rightarrow> raw_db pages"
  listFunctions :: "string \<Rightarrow> raw_function pages"
  getMetricData :: "string \<Rightarrow> metric_params \<Rightarrow> error + real list option list"
  getProducts :: "product_params \<Rightarrow> error + price_item list"
  sendMail :: "mail \<Rightarrow> error option"

subsection \<open>The helpers: pagination, metrics, prices, regions\<close>

text \<open>The two lookup tables of the source are finite maps; the keys an object inherits
  from its prototype are not modelled.\<close>

definition regionToLocation :: "string \<Rightarrow> string option" where
  "regionToLocation = map_of
     [(''us-east-1'', ''US East (N. Virginia)''),
      (''us-east-2'', ''US East (Ohio)''),
      (''us-west-1'', ''US West (N. California)''),
      (''us-west-2'', ''US West (Oregon)''),
      (''eu-west-1'', ''EU (Ireland)'')]"

text \<open>\<open>regionToLocation[region] || ''\<close>\<close>

definition location_of :: "string \<Rightarrow> string" where
  "location_of rgn = (case regionToLocation rgn of None \<Rightarrow> [] | Some l \<Rightarrow> l)"

text \<open>\<open>locRes.LocationConstraint || 'us-east-1'\<close>\<close>

definition bucketRegion_of :: "string option \<Rightarrow> string" where
  "bucketRegion_of constraint =
     (case constraint of None \<Rightarrow> ''us-east-1'' | Some l \<Rightarrow> if l = [] then ''us-east-1'' else l)"

text \<open>\<open>paginateDescribe\<close>: one request per page, the pages' items concatenated.\<close>

fun paginateDescribe :: "call \<Rightarrow> 'a pages \<Rightarrow> 'a list \<Rightarrow> 'a list prov" where
  "paginateDescribe c (Failed err) results = send_prov c (Inl err)"
| "paginateDescribe c (Last items) results =
     send_prov c (Inr (case items of None \<Rightarrow> results | Some xs \<Rightarrow> results @ xs))"
| "paginateDescribe c (More items rest) results =
     bind_prov (send_prov c (Inr (case items of None \<Rightarrow> results | Some xs \<Rightarrow> results @ xs)))
       (paginateDescribe c rest)"

text \<open>The \<open>params\<close> object of \<open>getMetric\<close> (the query's \<open>Id\<close> is the constant \<open>m1\<close>).\<close>

definition getMetric_params ::
  "env \<Rightarrow> string \<Rightarrow> string \<Rightarrow> dimension list \<Rightarrow> string \<Rightarrow> nat \<Rightarrow> metric_params" where
  "getMetric_params e namespace metricName dimensions stat days =
     (let period = (if days \<le> 1 then 3600 else 86400)
      in \<lparr>StartTime = now e - int days * 24 * 60 * 60 * 1000,
          EndTime = now e,
          Namespace = namespace, MetricName = metricName,
          Dimensions = dimensions, Period = period, Stat = stat\<rparr>)"

definition getMetric ::
  "env \<Rightarrow> string \<Rightarrow> string \<Rightarrow> string \<Rightarrow> dimension list \<Rightarrow> string \<Rightarrow> nat \<Rightarrow> real prov" where
  "getMetric e cwRegion namespace metricName dimensions stat days =
     (let params = getMetric_params e namespace metricName dimensions stat days
      in bind_prov (send_prov (GetMetricData cwRegion params) (getMetricData e cwRegion params))
           (\<lambda>results.
              case results of
                [] \<Rightarrow> throw_prov (Error ''TypeError'' ''Cannot read properties of undefined'')
              | r # _ \<Rightarrow>
                  (let values = (case r of None \<Rightarrow> [] | Some vs \<Rightarrow> vs)
                   in if stat = ''Sum'' then return_prov (foldl (+) 0 values)
                      else return_prov
                             (if length values > 0
                              then foldl (+) 0 values / real (length values) else 0))))"

text \<open>The \<open>try\<close> block of \<open>getHourlyPrice\<close>: it throws, returns a price, or falls
  through (\<open>None\<close>) when the price list is empty.\<close>

definition getHourlyPrice_try :: "env \<Rightarrow> product_params \<Rightarrow> real option prov" where
  "getHourlyPrice_try e params =
     bind_prov (send_prov (GetProducts params) (getProducts e params))
       (\<lambda>priceList.
          case priceList of
            [] \<Rightarrow> return_prov None
          | item # _ \<Rightarrow>
              (case item of
                 Unparsable err \<Rightarrow> throw_prov err
               | UnitPrice p \<Rightarrow> return_prov (Some p)))"

definition getHourlyPrice_params :: "string \<Rightarrow> price_filter list \<Rightarrow> product_params" where
  "getHourlyPrice_params serviceCode filters =
     \<lparr>ServiceCode = serviceCode, Filters = filters, MaxResults = 1, FormatVersion = ''aws_v1''\<rparr>"

definition getHourlyPrice :: "env \<Rightarrow> string \<Rightarrow> price_filter list \<Rightarrow> real prov" where
  "getHourlyPrice e serviceCode filters =
     bind_prov (try_prov (getHourlyPrice_try e (getHourlyPrice_params serviceCode filters)))
       (\<lambda>outcome.
          case outcome of
            Inl err \<Rightarrow> return_prov 0
          | Inr None \<Rightarrow> return_prov 0
          | Inr (Some p) \<Rightarrow> return_prov p)"

definition getAllRegions :: "env \<Rightarrow> string list prov" where
  "getAllRegions e =
     bind_prov (send_prov DescribeRegions (describeRegions e))
       (\<lambda>names. return_prov (sort names))"

subsection \<open>Resource records\<close>

text \<open>The object built for a resource. A field that the kind does not have is absent.\<close>

record resource =
  service :: string
  region :: string
  id' :: "string option"
  name' :: "string option"
  type' :: "string option"
  engine :: "string option"
  state :: "string option"
  size' :: "nat option"
  created :: "int option"
  creation :: int
  avgCpu :: "real option"
  numObjects :: "real option"
  sizeGB :: "real option"
  runtime :: "string option"
  memory :: "nat option"
  invocations :: "real option"
  usageStatus :: string
  monthlyCost :: real

definition new_resource :: "string \<Rightarrow> string \<Rightarrow> int \<Rightarrow> string \<Rightarrow> real \<Rightarrow> resource" where
  "new_resource s r c u m =
     \<lparr>service = s, region = r, id' = None, name' = None, type' = None, engine = None,
      state = None, size' = None, created = None, creation = c, avgCpu = None,
      numObjects = None, sizeGB = None, runtime = None, memory = None,
      invocations = None, usageStatus = u, monthlyCost = m\<rparr>"

text \<open>The \<open>map\<close> callbacks that build the records of each kind.\<close>

definition ec2_record :: "string \<Rightarrow> string \<Rightarrow> raw_instance \<Rightarrow> resource" where
  "ec2_record s r inst =
     (new_resource s r (LaunchTime inst) (State_Name inst) 0)
       \<lparr>id' := Some (InstanceId inst), type' := Some (InstanceType inst),
        state := Some (State_Name inst), avgCpu := Some 0\<rparr>"

definition typePrices :: "string \<Rightarrow> real option" where
  "typePrices = map_of
     [(''gp2'', 0.10), (''gp3'', 0.08), (''io1'', 0.125), (''st1'', 0.045), (''sc1'', 0.025)]"

definition ebs_record :: "string \<Rightarrow> string \<Rightarrow> raw_volume \<Rightarrow> resource" where
  "ebs_record s r vol =
     (let pricePerGb = (case typePrices (VolumeType vol) of
                          None \<Rightarrow> 0.10
                        | Some p \<Rightarrow> if p = 0 then 0.10 else p);
          cost = real (Size vol) * pricePerGb
      in (new_resource s r (CreateTime vol)
            (if State vol = ''in-use'' then ''used'' else ''idle'') cost)
           \<lparr>id' := Some (VolumeId vol), type' := Some (VolumeType vol),
            state := Some (State vol), size' := Some (Size vol)\<rparr>)"

definition rds_record :: "string \<Rightarrow> string \<Rightarrow> raw_db \<Rightarrow> resource" where
  "rds_record s r db =
     (new_resource s r (InstanceCreateTime db) (DBInstanceStatus db) 0)
       \<lparr>id' := Some (DBInstanceIdentifier db), type' := Some (DBInstanceClass db),
        engine := Some (Engine db), state := Some (DBInstanceStatus db),
        avgCpu := Some 0\<rparr>"

text \<open>The bucket's record as \<open>fetchServiceResources\<close> builds it from the two
  one-day metrics (lines 250 to 264), and as the scan does (lines 519 to 532).\<close>

definition s3_record :: "string \<Rightarrow> string \<Rightarrow> raw_bucket \<Rightarrow> real \<Rightarrow> real \<Rightarrow> resource" where
  "s3_record s r bucket nObjects sizeBytes =
     (let sizeInGB = sizeBytes / (1024 ^ 3);
          status = (if nObjects > 0 then ''used'' else ''idle'');
          cost = sizeInGB * 0.023
      in (new_resource s r (CreationDate bucket) status cost)
           \<lparr>name' := Some (Name bucket), created := Some (CreationDate bucket),
            numObjects := Some nObjects, sizeGB := Some sizeInGB\<rparr>)"

definition s3_scan_record :: "string \<Rightarrow> string \<Rightarrow> raw_bucket \<Rightarrow> real \<Rightarrow> real \<Rightarrow> resource" where
  "s3_scan_record s r bucket nObjects sizeBytes =
     (let sizeInGB = sizeBytes / (1024 ^ 3);
          status = (if nObjects > 0 then ''used'' else ''idle'');
          cost = sizeInGB * 0.023
      in (new_resource s r (CreationDate bucket) status cost)
           \<lparr>name' := Some (Name bucket),
            numObjects := Some nObjects, sizeGB := Some sizeInGB\<rparr>)"

definition lambda_record :: "string \<Rightarrow> string \<Rightarrow> raw_function \<Rightarrow> resource" where
  "lambda_record s r fn =
     (new_resource s r (LastModified fn) ''idle'' 0)
       \<lparr>name' := Some (FunctionName fn), runtime := Some (Runtime fn),
        memory := Some (MemorySize fn), invocations := Some 0\<rparr>"

text \<open>The number in a numeric field. Every record of the kind is built with the field,
  so the absent case (\<open>NaN\<close> in the source) does not arise.\<close>

definition num :: "nat option \<Rightarrow> real" where
  "num v = (case v of None \<Rightarrow> 0 | Some n \<Rightarrow> real n)"

definition toUpperCase_char :: "char \<Rightarrow> char" where
  "toUpperCase_char c =
     (let n = (of_char c :: nat) in if 97 \<le> n \<and> n \<le> 122 then char_of (n - 32) else c)"

definition toUpperCase :: "string \<Rightarrow> string" where
  "toUpperCase s = map toUpperCase_char s"

text \<open>\<open>s.charAt(0).toUpperCase() + s.slice(1)\<close>\<close>

definition capitalize :: "string \<Rightarrow> string" where
  "capitalize s = (case s of [] \<Rightarrow> [] | c # cs \<Rightarrow> toUpperCase_char c # cs)"

definition ec2_filters :: "string option \<Rightarrow> string \<Rightarrow> price_filter list" where
  "ec2_filters t location =
     [(''instanceType'', t),
      (''operatingSystem'', Some ''Linux''),
      (''tenancy'', Some ''Shared''),
      (''capacitystatus'', Some ''Used''),
      (''preInstalledSw'', Some ''NA''),
      (''location'', Some location)]"

definition rds_filters :: "string option \<Rightarrow> string \<Rightarrow> string \<Rightarrow> price_filter list" where
  "rds_filters t eng location =
     [(''instanceType'', t),
      (''databaseEngine'', Some eng),
      (''deploymentOption'', Some ''Single-AZ''),
      (''location'', Some location)]"

subsection \<open>\<open>fetchServiceResources\<close>: the loop bodies and the function\<close>

text \<open>Each body takes the record and the running \<open>totalCostEstimate\<close> and returns
  both as the iteration leaves them.\<close>

definition fetch_ec2_instance ::
  "env \<Rightarrow> string \<Rightarrow> resource \<Rightarrow> real \<Rightarrow> (resource \<times> real) prov" where
  "fetch_ec2_instance e rgn inst totalCostEstimate =
     (if state inst = Some ''running'' then
        bind_prov
          (getMetric e rgn ''AWS/EC2'' ''CPUUtilization'' [(''InstanceId'', id' inst)]
             ''Average'' 1)
          (\<lambda>cpu.
             let inst = inst\<lparr>avgCpu := Some cpu,
                             usageStatus := (if cpu < 1 then ''idle''
                                             else if cpu < 10 then ''underutilized''
                                             else ''used'')\<rparr>;
                 location = location_of rgn
             in if location \<noteq> [] then
                  bind_prov (getHourlyPrice e ''AmazonEC2'' (ec2_filters (type' inst) location))
                    (\<lambda>hourly.
                       return_prov (inst\<lparr>monthlyCost := hourly * 730\<rparr>,
                                    totalCostEstimate + hourly * 730))
                else return_prov (inst, totalCostEstimate))
      else if state inst = Some ''stopped'' then
        return_prov (inst\<lparr>usageStatus := ''stopped'', monthlyCost := 0\<rparr>, totalCostEstimate)
      else return_prov (inst, totalCostEstimate))"

definition fetch_rds_instance ::
  "env \<Rightarrow> string \<Rightarrow> resource \<Rightarrow> real \<Rightarrow> (resource \<times> real) prov" where
  "fetch_rds_instance e rgn db totalCostEstimate =
     (if state db = Some ''available'' then
        bind_prov
          (getMetric e rgn ''AWS/RDS'' ''CPUUtilization'' [(''DBInstanceIdentifier'', id' db)]
             ''Average'' 1)
          (\<lambda>cpu.
             let db = db\<lparr>avgCpu := Some cpu,
                         usageStatus := (if cpu < 1 then ''idle''
                                         else if cpu < 10 then ''underutilized''
                                         else ''used'')\<rparr>;
                 location = location_of rgn
             in if location \<noteq> [] then
                  (case engine db of
                     None \<Rightarrow> throw_prov (Error ''TypeError'' ''Cannot read properties of undefined'')
                   | Some eng \<Rightarrow>
                       bind_prov
                         (getHourlyPrice e ''AmazonRDS''
                            (rds_filters (type' db) (capitalize eng) location))
                         (\<lambda>hourly.
                            return_prov (db\<lparr>monthlyCost := hourly * 730\<rparr>,
                                         totalCostEstimate + hourly * 730)))
                else return_prov (db, totalCostEstimate))
      else if state db = Some ''stopped'' then
        return_prov (db\<lparr>usageStatus := ''stopped'', monthlyCost := 0\<rparr>, totalCostEstimate)
      else return_prov (db, totalCostEstimate))"

definition fetch_lambda_function ::
  "env \<Rightarrow> string \<Rightarrow> resource \<Rightarrow> real \<Rightarrow> (resource \<times> real) prov" where
  "fetch_lambda_function e rgn fn totalCostEstimate =
     bind_prov
       (getMetric e rgn ''AWS/Lambda'' ''Invocations'' [(''FunctionName'', name' fn)] ''Sum'' 1)
       (\<lambda>invs.
          let fn = fn\<lparr>invocations := Some invs,
                      usageStatus := (if invs > 0 then ''used'' else ''idle'')\<rparr>
          in if invs > 0 then
               bind_prov
                 (getMetric e rgn ''AWS/Lambda'' ''Duration'' [(''FunctionName'', name' fn)]
                    ''Average'' 1)
                 (\<lambda>avgDuration.
                    let totalDurationS = (avgDuration / 1000) * invs;
                        gbS = totalDurationS * (num (memory fn) / 1024);
                        reqCost = invs * 0.0000002;
                        computeCost = gbS * 0.0000166667
                    in return_prov (fn\<lparr>monthlyCost := (reqCost + computeCost) * 30\<rparr>,
                                    totalCostEstimate + (reqCost + computeCost) * 30))
             else return_prov (fn, totalCostEstimate))"

text \<open>The bucket loop appends to \<open>resources\<close> itself; a bucket whose location lookup
  fails, or that lies in another region, is skipped.\<close>

definition fetch_s3_bucket ::
  "env \<Rightarrow> string \<Rightarrow> string \<Rightarrow> raw_bucket \<Rightarrow> resource list \<times> real \<Rightarrow> (resource list \<times> real) prov" where
  "fetch_s3_bucket e svc rgn bucket acc =
     (case acc of (resources, totalCostEstimate) \<Rightarrow>
        bind_prov
          (try_prov (send_prov (GetBucketLocation (Name bucket)) (getBucketLocation e (Name bucket))))
          (\<lambda>locRes.
             case locRes of
               Inl err \<Rightarrow> return_prov (resources, totalCostEstimate)
             | Inr constraint \<Rightarrow>
                 (let bucketRegion = bucketRegion_of constraint
                  in if bucketRegion \<noteq> rgn then return_prov (resources, totalCostEstimate)
                     else
                       bind_prov
                         (getMetric e ''us-east-1'' ''AWS/S3'' ''NumberOfObjects''
                            [(''BucketName'', Some (Name bucket)),
                             (''StorageType'', Some ''AllStorageTypes'')] ''Average'' 1)
                         (\<lambda>nObjects.
                            bind_prov
                              (getMetric e ''us-east-1'' ''AWS/S3'' ''BucketSizeBytes''
                                 [(''BucketName'', Some (Name bucket)),
                                  (''StorageType'', Some ''StandardStorage'')] ''Average'' 1)
                              (\<lambda>sizeBytes.
                                 let res = s3_record svc rgn bucket nObjects sizeBytes
                                 in return_prov
                                      (resources @ [res],
                                       totalCostEstimate + monthlyCost res))))))"

text \<open>A loop that rewrites the records of \<open>resources\<close> in place: the records already
  visited, as changed, and the total.\<close>

definition visit ::
  "(resource \<Rightarrow> real \<Rightarrow> (resource \<times> real) prov) \<Rightarrow>
     resource \<Rightarrow> resource list \<times> real \<Rightarrow> (resource list \<times> real) prov" where
  "visit body r acc =
     (case acc of (resources, totalCostEstimate) \<Rightarrow>
        bind_prov (body r totalCostEstimate)
          (\<lambda>(r', total'). return_prov (resources @ [r'], total')))"

definition fetchServiceResources :: "env \<Rightarrow> string \<Rightarrow> string \<Rightarrow> (resource list \<times> real) prov" where
  "fetchServiceResources e svc rgn =
     (if svc = ''ec2'' then
        bind_prov (paginateDescribe (DescribeInstances rgn) (describeInstances e rgn) [])
          (\<lambda>reservations.
             for_of
               (map (ec2_record svc rgn)
                  (concat (map (\<lambda>res. case Instances res of None \<Rightarrow> [] | Some is \<Rightarrow> is)
                             reservations)))
               (visit (fetch_ec2_instance e rgn)) ([], 0))
      else if svc = ''ebs'' then
        bind_prov (paginateDescribe (DescribeVolumes rgn) (describeVolumes e rgn) [])
          (\<lambda>volumes.
             for_of volumes
               (\<lambda>vol (resources, totalCostEstimate).
                  return_prov (resources @ [ebs_record svc rgn vol],
                               totalCostEstimate + monthlyCost (ebs_record svc rgn vol)))
               ([], 0))
      else if svc = ''s3'' then
        bind_prov (send_prov ListBuckets (listBuckets e))
          (\<lambda>listed.
             for_of (case listed of None \<Rightarrow> [] | Some bs \<Rightarrow> bs)
               (fetch_s3_bucket e svc rgn) ([], 0))
      else if svc = ''rds'' then
        bind_prov (paginateDescribe (DescribeDBInstances rgn) (describeDBInstances e rgn) [])
          (\<lambda>dbInstances.
             for_of (map (rds_record svc rgn) dbInstances)
               (visit (fetch_rds_instance e rgn)) ([], 0))
      else if svc = ''lambda'' then
        bind_prov (paginateDescribe (ListFunctions rgn) (listFunctions e rgn) [])
          (\<lambda>functions.
             for_of (map (lambda_record svc rgn) functions)
               (visit (fetch_lambda_function e rgn)) ([], 0))
      else throw_prov (Error ''Error'' ''Invalid service''))"

subsection \<open>The scan: the loop bodies of \<open>/api/scan\<close> and of the scheduled job\<close>

text \<open>
  The handler of \<open>/api/scan\<close> and the scheduled job hold the same loops, line for line
  (lines 397 to 643 and 670 to 916), which are embedded once. Each body classifies a
  record and returns it with the 30-day metric it read (\<open>longMetric\<close>); the step then
  appends the record to \<open>unusedResources\<close> and \<open>longIdleResources\<close>.
\<close>

definition scan_ec2_instance :: "env \<Rightarrow> string \<Rightarrow> resource \<Rightarrow> (resource \<times> real) prov" where
  "scan_ec2_instance e rgn inst =
     (if state inst = Some ''running'' then
        bind_prov
          (getMetric e rgn ''AWS/EC2'' ''CPUUtilization'' [(''InstanceId'', id' inst)]
             ''Average'' 1)
          (\<lambda>cpu.
             let inst = inst\<lparr>avgCpu := Some cpu,
                             usageStatus := (if cpu < 1 then ''idle''
                                             else if cpu < 10 then ''underutilized''
                                             else ''used'')\<rparr>;
                 location = location_of rgn
             in bind_prov
                  (if location \<noteq> [] \<and> usageStatus inst \<noteq> ''stopped'' then
                     bind_prov
                       (getHourlyPrice e ''AmazonEC2'' (ec2_filters (type' inst) location))
                       (\<lambda>hourly. return_prov (inst\<lparr>monthlyCost := hourly * 730\<rparr>))
                   else return_prov inst)
                  (\<lambda>inst.
                     bind_prov
                       (getMetric e rgn ''AWS/EC2'' ''CPUUtilization''
                          [(''InstanceId'', id' inst)] ''Average'' 30)
                       (\<lambda>longMetric. return_prov (inst, longMetric))))
      else if state inst = Some ''stopped'' then
        return_prov (inst\<lparr>usageStatus := ''stopped'', monthlyCost := 0\<rparr>, 0)
      else return_prov (inst, 0))"

definition scan_ec2_step ::
  "env \<Rightarrow> string \<Rightarrow> int \<Rightarrow> resource \<Rightarrow> resource list \<times> resource list \<Rightarrow>
     (resource list \<times> resource list) prov" where
  "scan_ec2_step e rgn thirtyDaysAgo inst0 acc =
     (case acc of (unusedResources, longIdleResources) \<Rightarrow>
        bind_prov (scan_ec2_instance e rgn inst0)
          (\<lambda>(inst, longMetric).
             return_prov
               (if usageStatus inst \<noteq> ''used'' then unusedResources @ [inst]
                else unusedResources,
                if creation inst < thirtyDaysAgo \<and>
                   (state inst = Some ''stopped'' \<or>
                    (state inst = Some ''running'' \<and> longMetric < 1))
                then longIdleResources @ [inst] else longIdleResources)))"

definition scan_ebs_step ::
  "int \<Rightarrow> resource \<Rightarrow> resource list \<times> resource list \<Rightarrow>
     (resource list \<times> resource list) prov" where
  "scan_ebs_step thirtyDaysAgo vol acc =
     (case acc of (unusedResources, longIdleResources) \<Rightarrow>
        return_prov
          (if usageStatus vol \<noteq> ''used'' then unusedResources @ [vol] else unusedResources,
           if creation vol < thirtyDaysAgo \<and> state vol = Some ''available''
           then longIdleResources @ [vol] else longIdleResources))"

definition scan_s3_step ::
  "env \<Rightarrow> string \<Rightarrow> string \<Rightarrow> int \<Rightarrow> raw_bucket \<Rightarrow> resource list \<times> resource list \<Rightarrow>
     (resource list \<times> resource list) prov" where
  "scan_s3_step e svc rgn thirtyDaysAgo bucket acc =
     (case acc of (unusedResources, longIdleResources) \<Rightarrow>
        bind_prov
          (try_prov (send_prov (GetBucketLocation (Name bucket)) (getBucketLocation e (Name bucket))))
          (\<lambda>locRes.
             case locRes of
               Inl err \<Rightarrow> return_prov (unusedResources, longIdleResources)
             | Inr constraint \<Rightarrow>
                 (let bucketRegion = bucketRegion_of constraint
                  in if bucketRegion \<noteq> rgn then return_prov (unusedResources, longIdleResources)
                     else
                       bind_prov
                         (getMetric e ''us-east-1'' ''AWS/S3'' ''NumberOfObjects''
                            [(''BucketName'', Some (Name bucket)),
                             (''StorageType'', Some ''AllStorageTypes'')] ''Average'' 1)
                         (\<lambda>nObjects.
                            bind_prov
                              (getMetric e ''us-east-1'' ''AWS/S3'' ''BucketSizeBytes''
                                 [(''BucketName'', Some (Name bucket)),
                                  (''StorageType'', Some ''StandardStorage'')] ''Average'' 1)
                              (\<lambda>sizeBytes.
                                 let res = s3_scan_record svc rgn bucket nObjects sizeBytes;
                                     unusedResources =
                                       (if usageStatus res \<noteq> ''used''
                                        then unusedResources @ [res]
                                        else unusedResources)
                                 in bind_prov
                                      (getMetric e ''us-east-1'' ''AWS/S3'' ''NumberOfObjects''
                                         [(''BucketName'', Some (Name bucket)),
                                          (''StorageType'', Some ''AllStorageTypes'')]
                                         ''Average'' 30)
                                      (\<lambda>longNumObjects.
                                         return_prov
                                           (unusedResources,
                                            if creation res < thirtyDaysAgo \<and> longNumObjects = 0
                                            then longIdleResources @ [res]
                                            else longIdleResources)))))))"

definition scan_rds_instance :: "env \<Rightarrow> string \<Rightarrow> resource \<Rightarrow> (resource \<times> real) prov" where
  "scan_rds_instance e rgn db =
     (if state db = Some ''available'' then
        bind_prov
          (getMetric e rgn ''AWS/RDS'' ''CPUUtilization'' [(''DBInstanceIdentifier'', id' db)]
             ''Average'' 1)
          (\<lambda>cpu.
             let db = db\<lparr>avgCpu := Some cpu,
                         usageStatus := (if cpu < 1 then ''idle''
                                         else if cpu < 10 then ''underutilized''
                                         else ''used'')\<rparr>;
                 location = location_of rgn
             in bind_prov
                  (if location \<noteq> [] then
                     (case engine db of
                        None \<Rightarrow>
                          throw_prov (Error ''TypeError'' ''Cannot read properties of undefined'')
                      | Some eng \<Rightarrow>
                          bind_prov
                            (getHourlyPrice e ''AmazonRDS''
                               (rds_filters (type' db) (capitalize eng) location))
                            (\<lambda>hourly. return_prov (db\<lparr>monthlyCost := hourly * 730\<rparr>)))
                   else return_prov db)
                  (\<lambda>db.
                     bind_prov
                       (getMetric e rgn ''AWS/RDS'' ''CPUUtilization''
                          [(''DBInstanceIdentifier'', id' db)] ''Average'' 30)
                       (\<lambda>longMetric. return_prov (db, longMetric))))
      else if state db = Some ''stopped'' then
        return_prov (db\<lparr>usageStatus := ''stopped'', monthlyCost := 0\<rparr>, 0)
      else return_prov (db, 0))"

definition scan_rds_step ::
  "env \<Rightarrow> string \<Rightarrow> int \<Rightarrow> resource \<Rightarrow> resource list \<times> resource list \<Rightarrow>
     (resource list \<times> resource list) prov" where
  "scan_rds_step e rgn thirtyDaysAgo db0 acc =
     (case acc of (unusedResources, longIdleResources) \<Rightarrow>
        bind_prov (scan_rds_instance e rgn db0)
          (\<lambda>(db, longMetric).
             return_prov
               (if usageStatus db \<noteq> ''used'' then unusedResources @ [db]
                else unusedResources,
                if creation db < thirtyDaysAgo \<and>
                   (state db = Some ''stopped'' \<or>
                    (state db = Some ''available'' \<and> longMetric < 1))
                then longIdleResources @ [db] else longIdleResources)))"

definition scan_lambda_function :: "env \<Rightarrow> string \<Rightarrow> resource \<Rightarrow> resource prov" where
  "scan_lambda_function e rgn fn =
     bind_prov
       (getMetric e rgn ''AWS/Lambda'' ''Invocations'' [(''FunctionName'', name' fn)] ''Sum'' 1)
       (\<lambda>invs.
          let fn = fn\<lparr>invocations := Some invs,
                      usageStatus := (if invs > 0 then ''used'' else ''idle'')\<rparr>
          in if invs > 0 then
               bind_prov
                 (getMetric e rgn ''AWS/Lambda'' ''Duration'' [(''FunctionName'', name' fn)]
                    ''Average'' 1)
                 (\<lambda>avgDuration.
                    let totalDurationS = (avgDuration / 1000) * invs;
                        gbS = totalDurationS * (num (memory fn) / 1024);
                        reqCost = invs * 0.0000002;
                        computeCost = gbS * 0.0000166667
                    in return_prov (fn\<lparr>monthlyCost := (reqCost + computeCost) * 30\<rparr>))
             else return_prov fn)"

definition scan_lambda_step ::
  "env \<Rightarrow> string \<Rightarrow> int \<Rightarrow> resource \<Rightarrow> resource list \<times> resource list \<Rightarrow>
     (resource list \<times> resource list) prov" where
  "scan_lambda_step e rgn thirtyDaysAgo fn0 acc =
     (case acc of (unusedResources, longIdleResources) \<Rightarrow>
        bind_prov (scan_lambda_function e rgn fn0)
          (\<lambda>fn.
             let unusedResources =
                   (if usageStatus fn \<noteq> ''used'' then unusedResources @ [fn]
                    else unusedResources)
             in bind_prov
                  (getMetric e rgn ''AWS/Lambda'' ''Invocations''
                     [(''FunctionName'', name' fn)] ''Sum'' 30)
                  (\<lambda>longInvocations.
                     return_prov
                       (unusedResources,
                        if creation fn < thirtyDaysAgo \<and> longInvocations = 0
                        then longIdleResources @ [fn] else longIdleResources))))"

text \<open>The \<open>switch\<close> of the scan; it has no default case.\<close>

definition scan_service ::
  "env \<Rightarrow> string \<Rightarrow> int \<Rightarrow> string \<Rightarrow> resource list \<times> resource list \<Rightarrow>
     (resource list \<times> resource list) prov" where
  "scan_service e rgn thirtyDaysAgo svc acc =
     (if svc = ''ec2'' then
        bind_prov (paginateDescribe (DescribeInstances rgn) (describeInstances e rgn) [])
          (\<lambda>reservations.
             for_of
               (map (ec2_record svc rgn)
                  (concat (map (\<lambda>res. case Instances res of None \<Rightarrow> [] | Some is \<Rightarrow> is)
                             reservations)))
               (scan_ec2_step e rgn thirtyDaysAgo) acc)
      else if svc = ''ebs'' then
        bind_prov (paginateDescribe (DescribeVolumes rgn) (describeVolumes e rgn) [])
          (\<lambda>volumes.
             for_of (map (ebs_record svc rgn) volumes) (scan_ebs_step thirtyDaysAgo) acc)
      else if svc = ''s3'' then
        bind_prov (send_prov ListBuckets (listBuckets e))
          (\<lambda>listed.
             for_of (case listed of None \<Rightarrow> [] | Some bs \<Rightarrow> bs)
               (scan_s3_step e svc rgn thirtyDaysAgo) acc)
      else if svc = ''rds'' then
        bind_prov (paginateDescribe (DescribeDBInstances rgn) (describeDBInstances e rgn) [])
          (\<lambda>dbInstances.
             for_of (map (rds_record svc rgn) dbInstances)
               (scan_rds_step e rgn thirtyDaysAgo) acc)
      else if svc = ''lambda'' then
        bind_prov (paginateDescribe (ListFunctions rgn) (listFunctions e rgn) [])
          (\<lambda>functions.
             for_of (map (lambda_record svc rgn) functions)
               (scan_lambda_step e rgn thirtyDaysAgo) acc)
      else return_prov acc)"

definition services :: "string list" where
  "services = [''ec2'', ''ebs'', ''s3'', ''rds'', ''lambda'']"

definition thirtyDaysAgo_of :: "env \<Rightarrow> int" where
  "thirtyDaysAgo_of e = now e - 30 * 24 * 60 * 60 * 1000"

text \<open>The scan up to the end of its loops: \<open>(unusedResources, longIdleResources)\<close>.\<close>

definition scan_resources :: "env \<Rightarrow> (resource list \<times> resource list) prov" where
  "scan_resources e =
     bind_prov (getAllRegions e)
       (\<lambda>regions.
          for_of regions
            (\<lambda>rgn. for_of services (scan_service e rgn (thirtyDaysAgo_of e)))
            ([], []))"

subsection \<open>The notifier and the request handlers\<close>

text \<open>What a handler does beyond its answer: the provider requests, the calls of
  \<open>sendNotification\<close> with their arguments, and the mails handed to the transport.\<close>

datatype event =
    Provider call
  | Notification "resource list" bool
  | SendMail mail

definition toFixed2 :: "real \<Rightarrow> fixed_string" where
  "toFixed2 x =
     (let negative = (x < 0);
          y = (if x < 0 then - x else x)
      in if y \<ge> 10 ^ 21 then Exponential x
         else Fixed2 negative (nat \<lfloor>y * 100 + 1 / 2\<rfloor>))"


definition body_line_of :: "resource \<Rightarrow> body_line" where
  "body_line_of r =
     \<lparr>line_service = toUpperCase (service r),
      line_region = region r,
      line_ident = (case id' r of
                      None \<Rightarrow> name' r
                    | Some i \<Rightarrow> if i = [] then name' r else Some i),
      line_status = usageStatus r,
      line_cost = toFixed2 (monthlyCost r)\<rparr>"

definition sendNotification :: "env \<Rightarrow> resource list \<Rightarrow> bool \<Rightarrow> (error + string) \<times> event list" where
  "sendNotification e resources isManual =
     (case (emailUser e, emailPass e, receiverEmail e) of
        (Some user, Some pass, Some receiver) \<Rightarrow>
          if user = [] \<or> pass = [] \<or> receiver = [] then
            (Inl (Error ''Error'' ''Missing email configuration in .env''),
             [Notification resources isManual])
          else
            (let subj = (if isManual then ''Manual AWS Resources Notification''
                         else ''AWS Unused Resources Notification (>30 days)'');
                 txt = (if length resources > 0
                        then ResourceListing (map body_line_of resources)
                        else NoUnusedResources);
                 mailOptions = \<lparr>mail_from = ''AWS Resource Monitor <'' @ user @ ''>'',
                                mail_to = receiver, mail_subject = subj, mail_text = txt\<rparr>
             in case sendMail e mailOptions of
                  None \<Rightarrow>
                    (Inr ''Email sent successfully'',
                     [Notification resources isManual, SendMail mailOptions])
                | Some err \<Rightarrow>
                    (Inl err, [Notification resources isManual, SendMail mailOptions]))
      | _ \<Rightarrow>
          (Inl (Error ''Error'' ''Missing email configuration in .env''),
           [Notification resources isManual]))"

datatype response =
    Json_regions "string list"
  | Json_resources "resource list" fixed_string
  | Json_unusedResources "resource list"
  | Json_message string
  | Status500 string

text \<open>\<open>err.message || fallback\<close>\<close>

definition message_or :: "error \<Rightarrow> string \<Rightarrow> string" where
  "message_or err fallback = (if err_message err = [] then fallback else err_message err)"

text \<open>The process-wide variable.\<close>

record server =
  lastUnusedResources :: "resource list"

definition api_regions :: "env \<Rightarrow> response \<times> event list" where
  "api_regions e =
     (case getAllRegions e of
        (Inl err, cs) \<Rightarrow> (Status500 (message_or err ''Failed to fetch regions''), map Provider cs)
      | (Inr regions, cs) \<Rightarrow> (Json_regions regions, map Provider cs))"


definition api_scan :: "env \<Rightarrow> server \<Rightarrow> response \<times> server \<times> event list" where
  "api_scan e srv =
     (case scan_resources e of
        (Inl err, cs) \<Rightarrow>
          (Status500 (message_or err ''Failed to scan resources''), srv, map Provider cs)
      | (Inr (unusedResources, longIdleResources), cs) \<Rightarrow>
          (let srv = srv\<lparr>lastUnusedResources := unusedResources\<rparr>
           in if length longIdleResources > 0 then
                (case sendNotification e longIdleResources False of
                   (Inl err, evs) \<Rightarrow>
                     (Status500 (message_or err ''Failed to scan resources''), srv,
                      map Provider cs @ evs)
                 | (Inr sent, evs) \<Rightarrow>
                     (Json_unusedResources unusedResources, srv, map Provider cs @ evs))
              else (Json_unusedResources unusedResources, srv, map Provider cs)))"

text \<open>The scheduled job answers nobody: an error is logged only.\<close>

definition scheduled_scan :: "env \<Rightarrow> server \<Rightarrow> server \<times> event list" where
  "scheduled_scan e srv =
     (case scan_resources e of
        (Inl err, cs) \<Rightarrow> (srv, map Provider cs)
      | (Inr (unusedResources, longIdleResources), cs) \<Rightarrow>
          (let srv = srv\<lparr>lastUnusedResources := unusedResources\<rparr>
           in if length longIdleResources > 0 then
                (case sendNotification e longIdleResources False of
                   (outcome, evs) \<Rightarrow> (srv, map Provider cs @ evs))
              else (srv, map Provider cs)))"

definition api_send_email :: "env \<Rightarrow> server \<Rightarrow> response \<times> server \<times> event list" where
  "api_send_email e srv =
     (case sendNotification e (lastUnusedResources srv) True of
        (Inl err, evs) \<Rightarrow> (Status500 (message_or err ''Failed to send email''), srv, evs)
      | (Inr sent, evs) \<Rightarrow> (Json_message sent, srv, evs))"

subsection \<open>Properties of a record\<close>

text \<open>
  What the loops establish for a compute instance or database record, in terms of its own
  fields: in the state \<open>up\<close> (running, available) the status is the threshold class of
  the one-day CPU average that the metrics service reports for it; stopped, it is
  \<open>stopped\<close> at cost 0; in any other state the status is the provider's state string.
\<close>

definition cpu_classified :: "env \<Rightarrow> string \<Rightarrow> string \<Rightarrow> string \<Rightarrow> resource \<Rightarrow> bool" where
  "cpu_classified e namespace dimension up r \<longleftrightarrow>
     (state r = Some up \<longrightarrow>
        (case fst (getMetric e (region r) namespace ''CPUUtilization'' [(dimension, id' r)]
                     ''Average'' 1) of
           Inl err \<Rightarrow> False
         | Inr p \<Rightarrow>
             avgCpu r = Some p \<and>
             usageStatus r = (if p < 1 then ''idle''
                              else if p < 10 then ''underutilized'' else ''used'')))
     \<and> (state r = Some ''stopped'' \<longrightarrow> usageStatus r = ''stopped'' \<and> monthlyCost r = 0)
     \<and> (state r \<noteq> Some up \<and> state r \<noteq> Some ''stopped'' \<longrightarrow>
          state r = Some (usageStatus r) \<and> monthlyCost r = 0)"

text \<open>A record is classified: by its CPU average if it is a compute instance or a
  database, as used or idle otherwise.\<close>

definition classified :: "env \<Rightarrow> resource \<Rightarrow> bool" where
  "classified e r \<longleftrightarrow>
     (service r = ''ec2'' \<and> cpu_classified e ''AWS/EC2'' ''InstanceId'' ''running'' r)
     \<or> (service r = ''rds'' \<and> cpu_classified e ''AWS/RDS'' ''DBInstanceIdentifier'' ''available'' r)
     \<or> ((service r = ''ebs'' \<or> service r = ''s3'' \<or> service r = ''lambda'')
         \<and> (usageStatus r = ''used'' \<or> usageStatus r = ''idle''))"

text \<open>
  The 30-day aggregate of a record "indicates no meaningful activity", in the words of the
  specification: a CPU average below 1 for a compute instance or a database, an
  invocation sum of 0 for a function, an object-count average of 0 for a bucket. The
  specification names no aggregate for a block volume.
\<close>

definition no_activity_30d :: "env \<Rightarrow> resource \<Rightarrow> bool" where
  "no_activity_30d e r =
     (if service r = ''ec2'' then
        (case fst (getMetric e (region r) ''AWS/EC2'' ''CPUUtilization''
                     [(''InstanceId'', id' r)] ''Average'' 30) of
           Inl err \<Rightarrow> False | Inr m \<Rightarrow> m < 1)
      else if service r = ''rds'' then
        (case fst (getMetric e (region r) ''AWS/RDS'' ''CPUUtilization''
                     [(''DBInstanceIdentifier'', id' r)] ''Average'' 30) of
           Inl err \<Rightarrow> False | Inr m \<Rightarrow> m < 1)
      else if service r = ''lambda'' then
        (case fst (getMetric e (region r) ''AWS/Lambda'' ''Invocations''
                     [(''FunctionName'', name' r)] ''Sum'' 30) of
           Inl err \<Rightarrow> False | Inr m \<Rightarrow> m = 0)
      else if service r = ''s3'' then
        (case fst (getMetric e ''us-east-1'' ''AWS/S3'' ''NumberOfObjects''
                     [(''BucketName'', name' r), (''StorageType'', Some ''AllStorageTypes'')]
                     ''Average'' 30) of
           Inl err \<Rightarrow> False | Inr m \<Rightarrow> m = 0)
      else False)"

text \<open>The long-idle condition as the specification words it.\<close>

definition claimed_long_idle :: "env \<Rightarrow> resource \<Rightarrow> bool" where
  "claimed_long_idle e r \<longleftrightarrow>
     creation r < now e - 30 * 24 * 60 * 60 * 1000
     \<and> (state r = Some ''stopped'' \<or> no_activity_30d e r)"


text \<open>The long-idle condition as the scan applies it: the specification's, or an
  available block volume older than 30 days.\<close>

definition long_idle_found :: "env \<Rightarrow> resource \<Rightarrow> bool" where
  "long_idle_found e r \<longleftrightarrow>
     claimed_long_idle e r
     \<or> (service r = ''ebs'' \<and> creation r < now e - 30 * 24 * 60 * 60 * 1000
         \<and> state r = Some ''available'')"

text \<open>The invariant of the scan's loops over \<open>(unusedResources, longIdleResources)\<close>.\<close>

definition scan_invariant :: "env \<Rightarrow> resource list \<times> resource list \<Rightarrow> bool" where
  "scan_invariant e acc \<longleftrightarrow>
     (\<forall>r \<in> set (fst acc). classified e r)
     \<and> (\<forall>r \<in> set (snd acc). classified e r \<and> long_idle_found e r)"

text \<open>The calls of \<open>sendNotification\<close> in a list of events, with their arguments.\<close>

fun notifications :: "event list \<Rightarrow> (resource list \<times> bool) list" where
  "notifications [] = []"
| "notifications (Notification rs manual # evs) = (rs, manual) # notifications evs"
| "notifications (ev # evs) = notifications evs"

section \<open>Concrete environments\<close>

text \<open>An account with one region and nothing in it, at day 100 of the epoch; every metric
  query answers the two samples 2 and 4, the price list is empty and no mail account is
  configured. The examples below change one field at a time.\<close>

definition quiet_env :: env where
  "quiet_env =
     \<lparr>now = 8640000000,
      emailUser = None, emailPass = None, receiverEmail = None,
      describeRegions = Inr [''us-east-1''],
      describeInstances = (\<lambda>rgn. Last None),
      describeVolumes = (\<lambda>rgn. Last None),
      listBuckets = Inr None,
      getBucketLocation = (\<lambda>bucket. Inr None),
      describeDBInstances = (\<lambda>rgn. Last None),
      listFunctions = (\<lambda>rgn. Last None),
      getMetricData = (\<lambda>rgn params. Inr [Some [2, 4]]),
      getProducts = (\<lambda>params. Inr []),
      sendMail = (\<lambda>m. None)\<rparr>"

text \<open>Three instances launched at the epoch, 100 days before \<open>quiet_env\<close>'s clock, and
  the account that holds a given list of instances in one reservation.\<close>

definition running_instance :: raw_instance where
  "running_instance =
     \<lparr>InstanceId = ''i-1'', InstanceType = ''t3.micro'', State_Name = ''running'', LaunchTime = 0\<rparr>"

definition stopped_instance :: raw_instance where
  "stopped_instance =
     \<lparr>InstanceId = ''i-2'', InstanceType = ''t3.micro'', State_Name = ''stopped'', LaunchTime = 0\<rparr>"


definition ec2_env :: "raw_instance list \<Rightarrow> env" where
  "ec2_env insts =
     quiet_env\<lparr>describeInstances := (\<lambda>rgn. Last (Some [\<lparr>Instances = Some insts\<rparr>]))\<rparr>"

text \<open>One running instance and one available database, both created at the epoch, in an
  account where every metric query answers the single sample \<open>p\<close>.\<close>

definition available_db :: raw_db where
  "available_db =
     \<lparr>DBInstanceIdentifier = ''db-1'', DBInstanceClass = ''db.t3.micro'', Engine = ''postgres'',
      DBInstanceStatus = ''available'', InstanceCreateTime = 0\<rparr>"

definition cpu_env :: "real \<Rightarrow> env" where
  "cpu_env p =
     (ec2_env [running_instance])
       \<lparr>describeDBInstances := (\<lambda>rgn. Last (Some [available_db])),
        getMetricData := (\<lambda>rgn params. Inr [Some [p]])\<rparr>"

text \<open>An unattached 1 GB \<open>io1\<close> volume created at the epoch, and the account that holds a
  given list of volumes.\<close>

definition old_volume :: raw_volume where
  "old_volume =
     \<lparr>VolumeId = ''vol-1'', VolumeType = ''io1'', State = ''available'', Size = 1, CreateTime = 0\<rparr>"

definition ebs_env :: "raw_volume list \<Rightarrow> env" where
  "ebs_env vols = quiet_env\<lparr>describeVolumes := (\<lambda>rgn. Last (Some vols))\<rparr>"

text \<open>An account whose region listing is refused.\<close>

definition failing_env :: env where
  "failing_env = quiet_env\<lparr>describeRegions := Inl (Error ''AuthFailure'' ''not authorized'')\<rparr>"

text \<open>A 512 MB function, and metrics that report 1000 invocations (samples 400 and 600)
  of 200 ms on average (samples 150 and 250).\<close>

definition demo_function :: raw_function where
  "demo_function =
     \<lparr>FunctionName = ''resize'', Runtime = ''nodejs20.x'', MemorySize = 512, LastModified = 0\<rparr>"

definition lambda_env :: env where
  "lambda_env =
     quiet_env\<lparr>getMetricData :=
       (\<lambda>rgn params. if MetricName params = ''Invocations'' then Inr [Some [400, 600]]
                      else Inr [Some [150, 250]])\<rparr>"

section \<open>Basic facts about awaited computations\<close>

lemma foldl_add_sum_list: "foldl (+) a xs = a + sum_list (xs :: real list)"
  by (induction xs arbitrary: a) auto

lemma fst_bind_prov: "fst m = Inr a \<Longrightarrow> fst (bind_prov m f) = fst (f a)"
  by (cases m) (auto simp: bind_prov_def split: prod.splits)

lemma fst_bind_prov_Inl: "fst m = Inl err \<Longrightarrow> fst (bind_prov m f) = Inl err"
  by (cases m) (auto simp: bind_prov_def split: prod.splits)

lemma fst_bind_prov_Inr_iff:
  "fst (bind_prov m f) = Inr b \<longleftrightarrow> (\<exists>a. fst m = Inr a \<and> fst (f a) = Inr b)"
  by (cases m) (auto simp: bind_prov_def split: prod.splits sum.splits)

lemma fst_return_prov [simp]: "fst (return_prov a) = Inr a"
  by (simp add: return_prov_def)

lemma fst_throw_prov [simp]: "fst (throw_prov err) = Inl err"
  by (simp add: throw_prov_def)

lemma fst_send_prov [simp]: "fst (send_prov c r) = r"
  by (simp add: send_prov_def)

lemma fst_try_prov [simp]: "fst (try_prov m) = Inr (fst m)"
  by (simp add: try_prov_def split: prod.splits)

text \<open>A loop invariant: what holds before the loop and is kept by every iteration that
  returns holds when the loop returns.\<close>

lemma for_of_invariant:
  assumes "fst (for_of xs body s) = Inr s'" and "P s"
    and "\<And>x s t. x \<in> set xs \<Longrightarrow> P s \<Longrightarrow> fst (body x s) = Inr t \<Longrightarrow> P t"
  shows "P s'"
  using assms
proof (induction xs arbitrary: s)
  case Nil
  then show ?case by simp
next
  case (Cons x xs)
  from Cons.prems(1) obtain t where t: "fst (body x s) = Inr t" "fst (for_of xs body t) = Inr s'"
    by (auto simp: fst_bind_prov_Inr_iff)
  have Pt: "P t" using Cons.prems(3)[of x s t] Cons.prems(2) t(1) by simp
  show ?case
  proof (rule Cons.IH[OF t(2) Pt])
    fix y u v
    assume "y \<in> set xs" "P u" "fst (body y u) = Inr v"
    then show "P v" using Cons.prems(3)[of y u v] by simp
  qed
qed

lemma getHourlyPrice_returns: "\<exists>p. fst (getHourlyPrice e sc fs) = Inr p"
  by (auto simp: getHourlyPrice_def getHourlyPrice_try_def bind_prov_def send_prov_def
      try_prov_def return_prov_def throw_prov_def
      split: sum.splits list.splits price_item.splits option.splits prod.splits)

lemma fst_bind_prov_case:
  "fst (bind_prov m f) = (case fst m of Inl err \<Rightarrow> Inl err | Inr a \<Rightarrow> fst (f a))"
  by (cases m) (auto simp: bind_prov_def split: prod.splits sum.splits)

lemma bind_prov_InrE:
  assumes "fst (bind_prov m f) = Inr b"
  obtains a where "fst m = Inr a" and "fst (f a) = Inr b"
  using assms unfolding fst_bind_prov_Inr_iff by blast

lemma visit_InrE:
  assumes "fst (visit body x acc) = Inr acc'"
  obtains r' where "fst (body x (snd acc)) = Inr (r', snd acc')" and "fst acc' = fst acc @ [r']"
proof -
  obtain rs t where acc: "acc = (rs, t)" by (cases acc)
  from assms obtain out where out: "fst (body x t) = Inr out"
    and ret: "fst ((\<lambda>(r', total'). return_prov (rs @ [r'], total')) out) = Inr acc'"
    unfolding visit_def acc by (simp only: prod.case) (erule bind_prov_InrE)
  obtain r' t' where o: "out = (r', t')" by (cases out)
  from ret have "acc' = (rs @ [r'], t')" unfolding o by simp
  with out o acc show ?thesis by (intro that[of r']) simp_all
qed

subsection \<open>What an iteration of \<open>fetchServiceResources\<close> leaves\<close>

lemma fetch_ec2_instance_facts:
  assumes r: "fst (fetch_ec2_instance e rgn inst t) = Inr (inst', t')"
  shows "service inst' = service inst \<and> region inst' = region inst \<and> id' inst' = id' inst
         \<and> state inst' = state inst \<and> creation inst' = creation inst
         \<and> (state inst = Some ''running'' \<longrightarrow>
              (\<exists>p. fst (getMetric e rgn ''AWS/EC2'' ''CPUUtilization'' [(''InstanceId'', id' inst)]
                          ''Average'' 1) = Inr p
                   \<and> avgCpu inst' = Some p
                   \<and> usageStatus inst' = (if p < 1 then ''idle''
                                          else if p < 10 then ''underutilized'' else ''used'')))
         \<and> (state inst = Some ''stopped'' \<longrightarrow> usageStatus inst' = ''stopped'' \<and> monthlyCost inst' = 0)
         \<and> (state inst \<noteq> Some ''running'' \<and> state inst \<noteq> Some ''stopped'' \<longrightarrow>
              usageStatus inst' = usageStatus inst \<and> monthlyCost inst' = monthlyCost inst)
         \<and> (monthlyCost inst = 0 \<longrightarrow> t' = t + monthlyCost inst')"
proof (cases "state inst = Some ''running''")
  case True
  obtain h where
    h: "fst (getHourlyPrice e ''AmazonEC2'' (ec2_filters (type' inst) (location_of rgn))) = Inr h"
    using getHourlyPrice_returns ..
  show ?thesis
  proof (cases "fst (getMetric e rgn ''AWS/EC2'' ''CPUUtilization'' [(''InstanceId'', id' inst)]
                          ''Average'' 1)")
    case (Inl err)
    with r True show ?thesis by (simp add: fetch_ec2_instance_def fst_bind_prov_case)
  next
    case (Inr p)
    with r True h show ?thesis
      by (cases "location_of rgn = []")
         (simp_all add: fetch_ec2_instance_def fst_bind_prov_case Let_def, auto)
  qed
next
  case False
  with r show ?thesis
    by (cases "state inst = Some ''stopped''") (simp_all add: fetch_ec2_instance_def, auto)
qed

lemma fetch_rds_instance_facts:
  assumes r: "fst (fetch_rds_instance e rgn inst t) = Inr (inst', t')"
  shows "service inst' = service inst \<and> region inst' = region inst \<and> id' inst' = id' inst
         \<and> state inst' = state inst \<and> creation inst' = creation inst
         \<and> (state inst = Some ''available'' \<longrightarrow>
              (\<exists>p. fst (getMetric e rgn ''AWS/RDS'' ''CPUUtilization''
                          [(''DBInstanceIdentifier'', id' inst)] ''Average'' 1) = Inr p
                   \<and> avgCpu inst' = Some p
                   \<and> usageStatus inst' = (if p < 1 then ''idle''
                                          else if p < 10 then ''underutilized'' else ''used'')))
         \<and> (state inst = Some ''stopped'' \<longrightarrow> usageStatus inst' = ''stopped'' \<and> monthlyCost inst' = 0)
         \<and> (state inst \<noteq> Some ''available'' \<and> state inst \<noteq> Some ''stopped'' \<longrightarrow>
              usageStatus inst' = usageStatus inst \<and> monthlyCost inst' = monthlyCost inst)
         \<and> (monthlyCost inst = 0 \<longrightarrow> t' = t + monthlyCost inst')"
proof (cases "state inst = Some ''available''")
  case True
  show ?thesis
  proof (cases "fst (getMetric e rgn ''AWS/RDS'' ''CPUUtilization''
                          [(''DBInstanceIdentifier'', id' inst)] ''Average'' 1)")
    case (Inl err)
    with r True show ?thesis by (simp add: fetch_rds_instance_def fst_bind_prov_case)
  next
    case (Inr p)
    show ?thesis
    proof (cases "location_of rgn = []")
      case noloc: True
      with r True Inr show ?thesis
        by (simp add: fetch_rds_instance_def fst_bind_prov_case Let_def, auto)
    next
      case loc: False
      show ?thesis
      proof (cases "engine inst")
        case None
        with r True Inr loc show ?thesis
          by (simp add: fetch_rds_instance_def fst_bind_prov_case Let_def)
      next
        case (Some eng)
        obtain h where
          h: "fst (getHourlyPrice e ''AmazonRDS''
                     (rds_filters (type' inst) (capitalize eng) (location_of rgn))) = Inr h"
          using getHourlyPrice_returns ..
        with r True Inr loc Some show ?thesis
          by (simp add: fetch_rds_instance_def fst_bind_prov_case Let_def, auto)
      qed
    qed
  qed
next
  case False
  with r show ?thesis
    by (cases "state inst = Some ''stopped''") (simp_all add: fetch_rds_instance_def, auto)
qed

lemma fetch_lambda_function_facts:
  assumes r: "fst (fetch_lambda_function e rgn fn t) = Inr (fn', t')"
  shows "service fn' = service fn \<and> region fn' = region fn \<and> name' fn' = name' fn
         \<and> creation fn' = creation fn \<and> memory fn' = memory fn
         \<and> (\<exists>i. fst (getMetric e rgn ''AWS/Lambda'' ''Invocations''
                       [(''FunctionName'', name' fn)] ''Sum'' 1) = Inr i
                \<and> invocations fn' = Some i
                \<and> usageStatus fn' = (if i > 0 then ''used'' else ''idle'')
                \<and> (i > 0 \<longrightarrow>
                     (\<exists>d. fst (getMetric e rgn ''AWS/Lambda'' ''Duration''
                                 [(''FunctionName'', name' fn)] ''Average'' 1) = Inr d
                          \<and> monthlyCost fn' =
                              (i * 0.0000002
                               + (d / 1000) * i * (num (memory fn) / 1024) * 0.0000166667) * 30))
                \<and> (\<not> i > 0 \<longrightarrow> monthlyCost fn' = monthlyCost fn))
         \<and> (monthlyCost fn = 0 \<longrightarrow> t' = t + monthlyCost fn')"
proof (cases "fst (getMetric e rgn ''AWS/Lambda'' ''Invocations''
                       [(''FunctionName'', name' fn)] ''Sum'' 1)")
  case (Inl err)
  with r show ?thesis by (simp add: fetch_lambda_function_def fst_bind_prov_case)
next
  case (Inr i)
  show ?thesis
  proof (cases "i > 0")
    case False
    with r Inr show ?thesis
      by (simp add: fetch_lambda_function_def fst_bind_prov_case Let_def, auto)
  next
    case True
    show ?thesis
    proof (cases "fst (getMetric e rgn ''AWS/Lambda'' ''Duration''
                                 [(''FunctionName'', name' fn)] ''Average'' 1)")
      case (Inl err)
      with r Inr True show ?thesis
        by (simp add: fetch_lambda_function_def fst_bind_prov_case Let_def)
    next
      case d: (Inr d)
      with r Inr True show ?thesis
        by (simp add: fetch_lambda_function_def fst_bind_prov_case Let_def, auto)
    qed
  qed
qed

lemma fetch_s3_bucket_cases:
  assumes r: "fst (fetch_s3_bucket e svc rgn b (rs, t)) = Inr acc'"
  shows "acc' = (rs, t)
         \<or> (\<exists>n sz. fst (getMetric e ''us-east-1'' ''AWS/S3'' ''NumberOfObjects''
                            [(''BucketName'', Some (Name b)),
                             (''StorageType'', Some ''AllStorageTypes'')] ''Average'' 1) = Inr n
                  \<and> acc' = (rs @ [s3_record svc rgn b n sz], t + monthlyCost (s3_record svc rgn b n sz)))"
proof (cases "getBucketLocation e (Name b)")
  case (Inl err)
  with r show ?thesis by (simp add: fetch_s3_bucket_def fst_bind_prov_case)
next
  case (Inr c)
  show ?thesis
  proof (cases "bucketRegion_of c = rgn")
    case False
    with r Inr show ?thesis by (simp add: fetch_s3_bucket_def fst_bind_prov_case)
  next
    case True
    show ?thesis
    proof (cases "fst (getMetric e ''us-east-1'' ''AWS/S3'' ''NumberOfObjects''
                            [(''BucketName'', Some (Name b)),
                             (''StorageType'', Some ''AllStorageTypes'')] ''Average'' 1)")
      case (Inl err)
      with r Inr True show ?thesis by (simp add: fetch_s3_bucket_def fst_bind_prov_case)
    next
      case n: (Inr n)
      show ?thesis
      proof (cases "fst (getMetric e ''us-east-1'' ''AWS/S3'' ''BucketSizeBytes''
                                 [(''BucketName'', Some (Name b)),
                                  (''StorageType'', Some ''StandardStorage'')] ''Average'' 1)")
        case (Inl err)
        with r Inr True n show ?thesis by (simp add: fetch_s3_bucket_def fst_bind_prov_case)
      next
        case sz: (Inr sz)
        with r Inr True n show ?thesis
          by (simp add: fetch_s3_bucket_def fst_bind_prov_case Let_def, auto)
      qed
    qed
  qed
qed

lemma for_of_visit_invariant:
  assumes loop: "fst (for_of xs (visit body) acc) = Inr acc'" and start: "P acc"
    and step: "\<And>x rs t r' t'. x \<in> set xs \<Longrightarrow> P (rs, t) \<Longrightarrow> fst (body x t) = Inr (r', t')
                 \<Longrightarrow> P (rs @ [r'], t')"
  shows "P acc'"
proof (rule for_of_invariant[OF loop, of P, OF start])
  fix x s u
  assume x: "x \<in> set xs" and s: "P s" and u: "fst (visit body x s) = Inr u"
  from u obtain r' where b: "fst (body x (snd s)) = Inr (r', snd u)" and f: "fst u = fst s @ [r']"
    by (rule visit_InrE)
  have "P (fst s @ [r'], snd u)" using step[of x "fst s" "snd s" r' "snd u"] x s b by simp
  then show "P u" using f by (metis prod.collapse)
qed

lemma monthlyCost_records [simp]:
  "monthlyCost (ec2_record s r i) = 0"
  "monthlyCost (rds_record s r d) = 0"
  "monthlyCost (lambda_record s r f) = 0"
  by (simp_all add: ec2_record_def rds_record_def lambda_record_def new_resource_def)


lemma class_not_stopped [simp]:
  "(if (p::real) < 1 then ''idle'' else if p < 10 then ''underutilized'' else ''used'') \<noteq> ''stopped''"
  by simp

lemma scan_ec2_instance_facts:
  assumes r: "fst (scan_ec2_instance e rgn inst) = Inr (inst', lm)"
  shows "service inst' = service inst \<and> region inst' = region inst \<and> id' inst' = id' inst
         \<and> state inst' = state inst \<and> creation inst' = creation inst
         \<and> (state inst = Some ''running'' \<longrightarrow>
              (\<exists>p. fst (getMetric e rgn ''AWS/EC2'' ''CPUUtilization'' [(''InstanceId'', id' inst)]
                          ''Average'' 1) = Inr p
                   \<and> avgCpu inst' = Some p
                   \<and> usageStatus inst' = (if p < 1 then ''idle''
                                          else if p < 10 then ''underutilized'' else ''used''))
              \<and> fst (getMetric e rgn ''AWS/EC2'' ''CPUUtilization'' [(''InstanceId'', id' inst)]
                          ''Average'' 30) = Inr lm)
         \<and> (state inst = Some ''stopped'' \<longrightarrow> usageStatus inst' = ''stopped'' \<and> monthlyCost inst' = 0)
         \<and> (state inst \<noteq> Some ''running'' \<and> state inst \<noteq> Some ''stopped'' \<longrightarrow>
              usageStatus inst' = usageStatus inst \<and> monthlyCost inst' = monthlyCost inst)"
proof (cases "state inst = Some ''running''")
  case True
  obtain h where
    h: "fst (getHourlyPrice e ''AmazonEC2'' (ec2_filters (type' inst) (location_of rgn))) = Inr h"
    using getHourlyPrice_returns ..
  show ?thesis
  proof (cases "fst (getMetric e rgn ''AWS/EC2'' ''CPUUtilization'' [(''InstanceId'', id' inst)]
                          ''Average'' 1)")
    case (Inl err)
    with r True show ?thesis by (simp add: scan_ec2_instance_def fst_bind_prov_case)
  next
    case (Inr p)
    show ?thesis
    proof (cases "fst (getMetric e rgn ''AWS/EC2'' ''CPUUtilization'' [(''InstanceId'', id' inst)]
                          ''Average'' 30)")
      case (Inl err)
      with r True h Inr show ?thesis
        by (cases "location_of rgn = []")
           (simp_all add: scan_ec2_instance_def fst_bind_prov_case Let_def)
    next
      case l: (Inr m)
      with r True h Inr show ?thesis
        by (cases "location_of rgn = []")
           (simp_all add: scan_ec2_instance_def fst_bind_prov_case Let_def, auto)
    qed
  qed
next
  case False
  with r show ?thesis
    by (cases "state inst = Some ''stopped''") (simp_all add: scan_ec2_instance_def, auto)
qed

lemma scan_rds_instance_facts:
  assumes r: "fst (scan_rds_instance e rgn inst) = Inr (inst', lm)"
  shows "service inst' = service inst \<and> region inst' = region inst \<and> id' inst' = id' inst
         \<and> state inst' = state inst \<and> creation inst' = creation inst
         \<and> (state inst = Some ''available'' \<longrightarrow>
              (\<exists>p. fst (getMetric e rgn ''AWS/RDS'' ''CPUUtilization''
                          [(''DBInstanceIdentifier'', id' inst)] ''Average'' 1) = Inr p
                   \<and> avgCpu inst' = Some p
                   \<and> usageStatus inst' = (if p < 1 then ''idle''
                                          else if p < 10 then ''underutilized'' else ''used''))
              \<and> fst (getMetric e rgn ''AWS/RDS'' ''CPUUtilization''
                          [(''DBInstanceIdentifier'', id' inst)] ''Average'' 30) = Inr lm)
         \<and> (state inst = Some ''stopped'' \<longrightarrow> usageStatus inst' = ''stopped'' \<and> monthlyCost inst' = 0)
         \<and> (state inst \<noteq> Some ''available'' \<and> state inst \<noteq> Some ''stopped'' \<longrightarrow>
              usageStatus inst' = usageStatus inst \<and> monthlyCost inst' = monthlyCost inst)"
proof (cases "state inst = Some ''available''")
  case True
  show ?thesis
  proof (cases "fst (getMetric e rgn ''AWS/RDS'' ''CPUUtilization''
                          [(''DBInstanceIdentifier'', id' inst)] ''Average'' 1)")
    case (Inl err)
    with r True show ?thesis by (simp add: scan_rds_instance_def fst_bind_prov_case)
  next
    case (Inr p)
    show ?thesis
    proof (cases "fst (getMetric e rgn ''AWS/RDS'' ''CPUUtilization''
                          [(''DBInstanceIdentifier'', id' inst)] ''Average'' 30)")
      case l: (Inl err)
      show ?thesis
      proof (cases "location_of rgn = []")
        case noloc: True
        with r True Inr l show ?thesis
          by (simp add: scan_rds_instance_def fst_bind_prov_case Let_def)
      next
        case loc: False
        show ?thesis
        proof (cases "engine inst")
          case None
          with r True Inr loc show ?thesis
            by (simp add: scan_rds_instance_def fst_bind_prov_case Let_def)
        next
          case (Some eng)
          obtain h where
            h: "fst (getHourlyPrice e ''AmazonRDS''
                       (rds_filters (type' inst) (capitalize eng) (location_of rgn))) = Inr h"
            using getHourlyPrice_returns ..
          with r True Inr loc Some l show ?thesis
            by (simp add: scan_rds_instance_def fst_bind_prov_case Let_def)
        qed
      qed
    next
      case l: (Inr m)
      show ?thesis
      proof (cases "location_of rgn = []")
        case noloc: True
        with r True Inr l show ?thesis
          by (simp add: scan_rds_instance_def fst_bind_prov_case Let_def, auto)
      next
        case loc: False
        show ?thesis
        proof (cases "engine inst")
          case None
          with r True Inr loc show ?thesis
            by (simp add: scan_rds_instance_def fst_bind_prov_case Let_def)
        next
          case (Some eng)
          obtain h where
            h: "fst (getHourlyPrice e ''AmazonRDS''
                       (rds_filters (type' inst) (capitalize eng) (location_of rgn))) = Inr h"
            using getHourlyPrice_returns ..
          with r True Inr loc Some l show ?thesis
            by (simp add: scan_rds_instance_def fst_bind_prov_case Let_def, auto)
        qed
      qed
    qed
  qed
next
  case False
  with r show ?thesis
    by (cases "state inst = Some ''stopped''") (simp_all add: scan_rds_instance_def, auto)
qed

lemma scan_lambda_function_facts:
  assumes r: "fst (scan_lambda_function e rgn fn) = Inr fn'"
  shows "service fn' = service fn \<and> region fn' = region fn \<and> name' fn' = name' fn
         \<and> creation fn' = creation fn \<and> memory fn' = memory fn \<and> state fn' = state fn
         \<and> (\<exists>i. fst (getMetric e rgn ''AWS/Lambda'' ''Invocations''
                       [(''FunctionName'', name' fn)] ''Sum'' 1) = Inr i
                \<and> invocations fn' = Some i
                \<and> usageStatus fn' = (if i > 0 then ''used'' else ''idle'')
                \<and> (i > 0 \<longrightarrow>
                     (\<exists>d. fst (getMetric e rgn ''AWS/Lambda'' ''Duration''
                                 [(''FunctionName'', name' fn)] ''Average'' 1) = Inr d
                          \<and> monthlyCost fn' =
                              (i * 0.0000002
                               + (d / 1000) * i * (num (memory fn) / 1024) * 0.0000166667) * 30))
                \<and> (\<not> i > 0 \<longrightarrow> monthlyCost fn' = monthlyCost fn))"
proof (cases "fst (getMetric e rgn ''AWS/Lambda'' ''Invocations''
                       [(''FunctionName'', name' fn)] ''Sum'' 1)")
  case (Inl err)
  with r show ?thesis by (simp add: scan_lambda_function_def fst_bind_prov_case)
next
  case (Inr i)
  show ?thesis
  proof (cases "i > 0")
    case False
    with r Inr show ?thesis
      by (simp add: scan_lambda_function_def fst_bind_prov_case Let_def, auto)
  next
    case True
    show ?thesis
    proof (cases "fst (getMetric e rgn ''AWS/Lambda'' ''Duration''
                                 [(''FunctionName'', name' fn)] ''Average'' 1)")
      case (Inl err)
      with r Inr True show ?thesis
        by (simp add: scan_lambda_function_def fst_bind_prov_case Let_def)
    next
      case d: (Inr d)
      with r Inr True show ?thesis
        by (simp add: scan_lambda_function_def fst_bind_prov_case Let_def, auto)
    qed
  qed
qed

subsection \<open>What an iteration of the scan appends\<close>

lemma scan_ec2_step_cases:
  assumes r: "fst (scan_ec2_step e rgn T x (u, l)) = Inr acc'"
  shows "\<exists>inst' lm. fst (scan_ec2_instance e rgn x) = Inr (inst', lm)
           \<and> acc' = (if usageStatus inst' \<noteq> ''used'' then u @ [inst'] else u,
                     if creation inst' < T \<and>
                        (state inst' = Some ''stopped'' \<or>
                         (state inst' = Some ''running'' \<and> lm < 1))
                     then l @ [inst'] else l)"
proof (cases "fst (scan_ec2_instance e rgn x)")
  case (Inl err)
  with r show ?thesis by (simp add: scan_ec2_step_def fst_bind_prov_case)
next
  case (Inr out)
  obtain inst' lm where "out = (inst', lm)" by (cases out)
  with r Inr show ?thesis
    by (simp add: scan_ec2_step_def fst_bind_prov_case)
qed

lemma scan_rds_step_cases:
  assumes r: "fst (scan_rds_step e rgn T x (u, l)) = Inr acc'"
  shows "\<exists>inst' lm. fst (scan_rds_instance e rgn x) = Inr (inst', lm)
           \<and> acc' = (if usageStatus inst' \<noteq> ''used'' then u @ [inst'] else u,
                     if creation inst' < T \<and>
                        (state inst' = Some ''stopped'' \<or>
                         (state inst' = Some ''available'' \<and> lm < 1))
                     then l @ [inst'] else l)"
proof (cases "fst (scan_rds_instance e rgn x)")
  case (Inl err)
  with r show ?thesis by (simp add: scan_rds_step_def fst_bind_prov_case)
next
  case (Inr out)
  obtain inst' lm where "out = (inst', lm)" by (cases out)
  with r Inr show ?thesis
    by (simp add: scan_rds_step_def fst_bind_prov_case)
qed

lemma scan_lambda_step_cases:
  assumes r: "fst (scan_lambda_step e rgn T x (u, l)) = Inr acc'"
  shows "\<exists>fn' m. fst (scan_lambda_function e rgn x) = Inr fn'
           \<and> fst (getMetric e rgn ''AWS/Lambda'' ''Invocations''
                     [(''FunctionName'', name' fn')] ''Sum'' 30) = Inr m
           \<and> acc' = (if usageStatus fn' \<noteq> ''used'' then u @ [fn'] else u,
                     if creation fn' < T \<and> m = 0 then l @ [fn'] else l)"
proof (cases "fst (scan_lambda_function e rgn x)")
  case (Inl err)
  with r show ?thesis by (simp add: scan_lambda_step_def fst_bind_prov_case)
next
  case (Inr fn')
  show ?thesis
  proof (cases "fst (getMetric e rgn ''AWS/Lambda'' ''Invocations''
                     [(''FunctionName'', name' fn')] ''Sum'' 30)")
    case l: (Inl err)
    with r Inr show ?thesis by (simp add: scan_lambda_step_def fst_bind_prov_case Let_def)
  next
    case m: (Inr m)
    with r Inr show ?thesis
      by (simp add: scan_lambda_step_def fst_bind_prov_case Let_def)
  qed
qed

lemma scan_s3_step_cases:
  assumes r: "fst (scan_s3_step e svc rgn T b (u, l)) = Inr acc'"
  shows "acc' = (u, l)
         \<or> (\<exists>n sz m. fst (getMetric e ''us-east-1'' ''AWS/S3'' ''NumberOfObjects''
                            [(''BucketName'', Some (Name b)),
                             (''StorageType'', Some ''AllStorageTypes'')] ''Average'' 30) = Inr m
                  \<and> acc' = (if usageStatus (s3_scan_record svc rgn b n sz) \<noteq> ''used''
                            then u @ [s3_scan_record svc rgn b n sz] else u,
                            if creation (s3_scan_record svc rgn b n sz) < T \<and> m = 0
                            then l @ [s3_scan_record svc rgn b n sz] else l))"
proof (cases "getBucketLocation e (Name b)")
  case (Inl err)
  with r show ?thesis by (simp add: scan_s3_step_def fst_bind_prov_case)
next
  case (Inr c)
  show ?thesis
  proof (cases "bucketRegion_of c = rgn")
    case False
    with r Inr show ?thesis by (simp add: scan_s3_step_def fst_bind_prov_case)
  next
    case True
    show ?thesis
    proof (cases "fst (getMetric e ''us-east-1'' ''AWS/S3'' ''NumberOfObjects''
                            [(''BucketName'', Some (Name b)),
                             (''StorageType'', Some ''AllStorageTypes'')] ''Average'' 1)")
      case (Inl err)
      with r Inr True show ?thesis by (simp add: scan_s3_step_def fst_bind_prov_case)
    next
      case n: (Inr n)
      show ?thesis
      proof (cases "fst (getMetric e ''us-east-1'' ''AWS/S3'' ''BucketSizeBytes''
                                 [(''BucketName'', Some (Name b)),
                                  (''StorageType'', Some ''StandardStorage'')] ''Average'' 1)")
        case (Inl err)
        with r Inr True n show ?thesis by (simp add: scan_s3_step_def fst_bind_prov_case)
      next
        case sz: (Inr sz)
        show ?thesis
        proof (cases "fst (getMetric e ''us-east-1'' ''AWS/S3'' ''NumberOfObjects''
                            [(''BucketName'', Some (Name b)),
                             (''StorageType'', Some ''AllStorageTypes'')] ''Average'' 30)")
          case (Inl err)
          with r Inr True n sz show ?thesis
            by (simp add: scan_s3_step_def fst_bind_prov_case Let_def)
        next
          case m: (Inr m)
          with r Inr True n sz
          have "acc' = (if usageStatus (s3_scan_record svc rgn b n sz) \<noteq> ''used''
                            then u @ [s3_scan_record svc rgn b n sz] else u,
                            if creation (s3_scan_record svc rgn b n sz) < T \<and> m = 0
                            then l @ [s3_scan_record svc rgn b n sz] else l)"
            by (simp add: scan_s3_step_def fst_bind_prov_case Let_def)
          with m show ?thesis
            by (intro disjI2 exI[of _ n] exI[of _ sz] exI[of _ m] conjI)
        qed
      qed
    qed
  qed
qed

subsection \<open>The fields of the records and the classification\<close>

lemma ec2_record_fields [simp]:
  "service (ec2_record s r i) = s" "region (ec2_record s r i) = r"
  "id' (ec2_record s r i) = Some (InstanceId i)" "state (ec2_record s r i) = Some (State_Name i)"
  "creation (ec2_record s r i) = LaunchTime i" "usageStatus (ec2_record s r i) = State_Name i"
  by (simp_all add: ec2_record_def new_resource_def)

lemma rds_record_fields [simp]:
  "service (rds_record s r d) = s" "region (rds_record s r d) = r"
  "id' (rds_record s r d) = Some (DBInstanceIdentifier d)"
  "state (rds_record s r d) = Some (DBInstanceStatus d)"
  "creation (rds_record s r d) = InstanceCreateTime d"
  "usageStatus (rds_record s r d) = DBInstanceStatus d"
  "engine (rds_record s r d) = Some (Engine d)"
  by (simp_all add: rds_record_def new_resource_def)

lemma lambda_record_fields [simp]:
  "service (lambda_record s r f) = s" "region (lambda_record s r f) = r"
  "name' (lambda_record s r f) = Some (FunctionName f)" "state (lambda_record s r f) = None"
  "creation (lambda_record s r f) = LastModified f" "usageStatus (lambda_record s r f) = ''idle''"
  "memory (lambda_record s r f) = Some (MemorySize f)"
  by (simp_all add: lambda_record_def new_resource_def)

lemma ebs_record_fields [simp]:
  "service (ebs_record s r v) = s" "region (ebs_record s r v) = r"
  "state (ebs_record s r v) = Some (State v)" "creation (ebs_record s r v) = CreateTime v"
  "usageStatus (ebs_record s r v) = (if State v = ''in-use'' then ''used'' else ''idle'')"
  by (simp_all add: ebs_record_def new_resource_def Let_def)

lemma s3_record_fields [simp]:
  "service (s3_record s r b n sz) = s" "region (s3_record s r b n sz) = r"
  "name' (s3_record s r b n sz) = Some (Name b)" "state (s3_record s r b n sz) = None"
  "creation (s3_record s r b n sz) = CreationDate b"
  "usageStatus (s3_record s r b n sz) = (if n > 0 then ''used'' else ''idle'')"
  by (simp_all add: s3_record_def new_resource_def Let_def)

lemma s3_scan_record_fields [simp]:
  "service (s3_scan_record s r b n sz) = s" "region (s3_scan_record s r b n sz) = r"
  "name' (s3_scan_record s r b n sz) = Some (Name b)" "state (s3_scan_record s r b n sz) = None"
  "creation (s3_scan_record s r b n sz) = CreationDate b"
  "usageStatus (s3_scan_record s r b n sz) = (if n > 0 then ''used'' else ''idle'')"
  by (simp_all add: s3_scan_record_def new_resource_def Let_def)

lemma fetch_ec2_instance_classified:
  assumes "fst (fetch_ec2_instance e rgn (ec2_record ''ec2'' rgn raw) t) = Inr (inst', t')"
  shows "service inst' = ''ec2'' \<and> region inst' = rgn \<and> classified e inst'"
  using fetch_ec2_instance_facts[OF assms]
  by (auto simp: classified_def cpu_classified_def)

lemma fetch_rds_instance_classified:
  assumes "fst (fetch_rds_instance e rgn (rds_record ''rds'' rgn raw) t) = Inr (inst', t')"
  shows "service inst' = ''rds'' \<and> region inst' = rgn \<and> classified e inst'"
  using fetch_rds_instance_facts[OF assms]
  by (auto simp: classified_def cpu_classified_def)

lemma fetch_lambda_function_classified:
  assumes "fst (fetch_lambda_function e rgn (lambda_record ''lambda'' rgn raw) t) = Inr (fn', t')"
  shows "service fn' = ''lambda'' \<and> region fn' = rgn \<and> classified e fn'"
  using fetch_lambda_function_facts[OF assms]
  by (auto simp: classified_def split: if_splits)

lemma scan_ec2_instance_classified:
  assumes "fst (scan_ec2_instance e rgn (ec2_record ''ec2'' rgn raw)) = Inr (inst', lm)"
  shows "classified e inst'
         \<and> (creation inst' < now e - 30 * 24 * 60 * 60 * 1000 \<and>
              (state inst' = Some ''stopped'' \<or> (state inst' = Some ''running'' \<and> lm < 1))
            \<longrightarrow> long_idle_found e inst')"
  using scan_ec2_instance_facts[OF assms]
  by (auto simp: classified_def cpu_classified_def long_idle_found_def claimed_long_idle_def
      no_activity_30d_def)

lemma scan_rds_instance_classified:
  assumes "fst (scan_rds_instance e rgn (rds_record ''rds'' rgn raw)) = Inr (inst', lm)"
  shows "classified e inst'
         \<and> (creation inst' < now e - 30 * 24 * 60 * 60 * 1000 \<and>
              (state inst' = Some ''stopped'' \<or> (state inst' = Some ''available'' \<and> lm < 1))
            \<longrightarrow> long_idle_found e inst')"
  using scan_rds_instance_facts[OF assms]
  by (auto simp: classified_def cpu_classified_def long_idle_found_def claimed_long_idle_def
      no_activity_30d_def)

lemma scan_invariant_ec2_step:
  assumes inv: "scan_invariant e acc"
    and r: "fst (scan_ec2_step e rgn (thirtyDaysAgo_of e) (ec2_record ''ec2'' rgn raw) acc) = Inr acc'"
  shows "scan_invariant e acc'"
proof -
  obtain u l where acc: "acc = (u, l)" by (cases acc)
  from scan_ec2_step_cases[OF r[unfolded acc]] obtain inst' lm where
    b: "fst (scan_ec2_instance e rgn (ec2_record ''ec2'' rgn raw)) = Inr (inst', lm)"
    and a: "acc' = (if usageStatus inst' \<noteq> ''used'' then u @ [inst'] else u,
                     if creation inst' < thirtyDaysAgo_of e \<and>
                        (state inst' = Some ''stopped'' \<or>
                         (state inst' = Some ''running'' \<and> lm < 1))
                     then l @ [inst'] else l)"
    by (elim exE conjE)
  from scan_ec2_instance_classified[OF b] inv show ?thesis
    unfolding a acc scan_invariant_def thirtyDaysAgo_of_def by auto
qed

lemma scan_invariant_rds_step:
  assumes inv: "scan_invariant e acc"
    and r: "fst (scan_rds_step e rgn (thirtyDaysAgo_of e) (rds_record ''rds'' rgn raw) acc) = Inr acc'"
  shows "scan_invariant e acc'"
proof -
  obtain u l where acc: "acc = (u, l)" by (cases acc)
  from scan_rds_step_cases[OF r[unfolded acc]] obtain inst' lm where
    b: "fst (scan_rds_instance e rgn (rds_record ''rds'' rgn raw)) = Inr (inst', lm)"
    and a: "acc' = (if usageStatus inst' \<noteq> ''used'' then u @ [inst'] else u,
                     if creation inst' < thirtyDaysAgo_of e \<and>
                        (state inst' = Some ''stopped'' \<or>
                         (state inst' = Some ''available'' \<and> lm < 1))
                     then l @ [inst'] else l)"
    by (elim exE conjE)
  from scan_rds_instance_classified[OF b] inv show ?thesis
    unfolding a acc scan_invariant_def thirtyDaysAgo_of_def by auto
qed

lemma scan_invariant_lambda_step:
  assumes inv: "scan_invariant e acc"
    and r: "fst (scan_lambda_step e rgn (thirtyDaysAgo_of e) (lambda_record ''lambda'' rgn raw) acc)
              = Inr acc'"
  shows "scan_invariant e acc'"
proof -
  obtain u l where acc: "acc = (u, l)" by (cases acc)
  from scan_lambda_step_cases[OF r[unfolded acc]] obtain fn' m where
    b: "fst (scan_lambda_function e rgn (lambda_record ''lambda'' rgn raw)) = Inr fn'"
    and m: "fst (getMetric e rgn ''AWS/Lambda'' ''Invocations''
                     [(''FunctionName'', name' fn')] ''Sum'' 30) = Inr m"
    and a: "acc' = (if usageStatus fn' \<noteq> ''used'' then u @ [fn'] else u,
                     if creation fn' < thirtyDaysAgo_of e \<and> m = 0 then l @ [fn'] else l)"
    by (elim exE conjE)
  from scan_lambda_function_facts[OF b] have
    f: "service fn' = ''lambda''" "region fn' = rgn"
       "usageStatus fn' = ''used'' \<or> usageStatus fn' = ''idle''"
    by (auto split: if_splits)
  then have c: "classified e fn'" by (simp add: classified_def)
  have "creation fn' < thirtyDaysAgo_of e \<and> m = 0 \<longrightarrow> long_idle_found e fn'"
    using f m by (simp add: long_idle_found_def claimed_long_idle_def no_activity_30d_def
        thirtyDaysAgo_of_def)
  with c inv show ?thesis
    unfolding a acc scan_invariant_def by auto
qed

lemma scan_invariant_s3_step:
  assumes inv: "scan_invariant e acc"
    and r: "fst (scan_s3_step e ''s3'' rgn (thirtyDaysAgo_of e) b acc) = Inr acc'"
  shows "scan_invariant e acc'"
proof -
  obtain u l where acc: "acc = (u, l)" by (cases acc)
  from scan_s3_step_cases[OF r[unfolded acc]] show ?thesis
  proof
    assume "acc' = (u, l)"
    with inv acc show ?thesis by simp
  next
    assume "\<exists>n sz m. fst (getMetric e ''us-east-1'' ''AWS/S3'' ''NumberOfObjects''
                            [(''BucketName'', Some (Name b)),
                             (''StorageType'', Some ''AllStorageTypes'')] ''Average'' 30) = Inr m
                  \<and> acc' = (if usageStatus (s3_scan_record ''s3'' rgn b n sz) \<noteq> ''used''
                            then u @ [s3_scan_record ''s3'' rgn b n sz] else u,
                            if creation (s3_scan_record ''s3'' rgn b n sz) < thirtyDaysAgo_of e \<and> m = 0
                            then l @ [s3_scan_record ''s3'' rgn b n sz] else l)"
    then obtain n sz m where
      m: "fst (getMetric e ''us-east-1'' ''AWS/S3'' ''NumberOfObjects''
                            [(''BucketName'', Some (Name b)),
                             (''StorageType'', Some ''AllStorageTypes'')] ''Average'' 30) = Inr m"
      and a: "acc' = (if usageStatus (s3_scan_record ''s3'' rgn b n sz) \<noteq> ''used''
                            then u @ [s3_scan_record ''s3'' rgn b n sz] else u,
                            if creation (s3_scan_record ''s3'' rgn b n sz) < thirtyDaysAgo_of e \<and> m = 0
                            then l @ [s3_scan_record ''s3'' rgn b n sz] else l)"
      by (elim exE conjE)
    have c: "classified e (s3_scan_record ''s3'' rgn b n sz)" by (simp add: classified_def)
    have "creation (s3_scan_record ''s3'' rgn b n sz) < thirtyDaysAgo_of e \<and> m = 0
            \<longrightarrow> long_idle_found e (s3_scan_record ''s3'' rgn b n sz)"
      using m by (simp add: long_idle_found_def claimed_long_idle_def no_activity_30d_def
          thirtyDaysAgo_of_def)
    with c inv show ?thesis
      unfolding a acc scan_invariant_def by auto
  qed
qed

lemma scan_invariant_ebs_step:
  assumes inv: "scan_invariant e acc"
    and r: "fst (scan_ebs_step (thirtyDaysAgo_of e) (ebs_record ''ebs'' rgn raw) acc) = Inr acc'"
  shows "scan_invariant e acc'"
proof -
  obtain u l where acc: "acc = (u, l)" by (cases acc)
  have c: "classified e (ebs_record ''ebs'' rgn raw)" by (simp add: classified_def)
  have "creation (ebs_record ''ebs'' rgn raw) < thirtyDaysAgo_of e
          \<and> state (ebs_record ''ebs'' rgn raw) = Some ''available''
        \<longrightarrow> long_idle_found e (ebs_record ''ebs'' rgn raw)"
    by (simp add: long_idle_found_def thirtyDaysAgo_of_def)
  with c inv r show ?thesis
    unfolding acc scan_invariant_def scan_ebs_step_def by (auto split: if_splits)
qed

subsection \<open>The loops\<close>

lemma scan_service_invariant:
  assumes inv: "scan_invariant e acc"
    and r: "fst (scan_service e rgn (thirtyDaysAgo_of e) svc acc) = Inr acc'"
  shows "scan_invariant e acc'"
proof -
  consider (ec2) "svc = ''ec2''" | (ebs) "svc = ''ebs''" | (s3) "svc = ''s3''"
    | (rds) "svc = ''rds''" | (lam) "svc = ''lambda''"
    | (bad) "svc \<noteq> ''ec2''" "svc \<noteq> ''ebs''" "svc \<noteq> ''s3''" "svc \<noteq> ''rds''" "svc \<noteq> ''lambda''"
    by blast
  then show ?thesis
  proof cases
    case ec2
    from r obtain xs where
      l: "fst (for_of xs (scan_ec2_step e rgn (thirtyDaysAgo_of e)) acc) = Inr acc'"
      and xs: "\<forall>x \<in> set xs. \<exists>raw. x = ec2_record ''ec2'' rgn raw"
      unfolding scan_service_def ec2
      by (simp only: simp_thms if_True) (erule bind_prov_InrE, rule that, assumption, auto)
    show ?thesis
    proof (rule for_of_invariant[OF l, where P = "scan_invariant e", OF inv])
      fix x s u
      assume x: "x \<in> set xs" and s: "scan_invariant e s"
        and u: "fst (scan_ec2_step e rgn (thirtyDaysAgo_of e) x s) = Inr u"
      from xs x obtain raw where raw: "x = ec2_record ''ec2'' rgn raw" by auto
      show "scan_invariant e u" by (rule scan_invariant_ec2_step[OF s u[unfolded raw]])
    qed
  next
    case ebs
    from r obtain xs where
      l: "fst (for_of xs (scan_ebs_step (thirtyDaysAgo_of e)) acc) = Inr acc'"
      and xs: "\<forall>x \<in> set xs. \<exists>raw. x = ebs_record ''ebs'' rgn raw"
      unfolding scan_service_def ebs
      by (simp only: simp_thms if_True if_False list.inject char.inject)
         (erule bind_prov_InrE, rule that, assumption, auto)
    show ?thesis
    proof (rule for_of_invariant[OF l, where P = "scan_invariant e", OF inv])
      fix x s u
      assume x: "x \<in> set xs" and s: "scan_invariant e s"
        and u: "fst (scan_ebs_step (thirtyDaysAgo_of e) x s) = Inr u"
      from xs x obtain raw where raw: "x = ebs_record ''ebs'' rgn raw" by auto
      show "scan_invariant e u" by (rule scan_invariant_ebs_step[OF s u[unfolded raw]])
    qed
  next
    case s3
    from r obtain xs where
      l: "fst (for_of xs (scan_s3_step e ''s3'' rgn (thirtyDaysAgo_of e)) acc) = Inr acc'"
      unfolding scan_service_def s3
      by (simp only: simp_thms if_True if_False list.inject char.inject) (erule bind_prov_InrE)
    show ?thesis
    proof (rule for_of_invariant[OF l, where P = "scan_invariant e", OF inv])
      fix x s u
      assume s: "scan_invariant e s"
        and u: "fst (scan_s3_step e ''s3'' rgn (thirtyDaysAgo_of e) x s) = Inr u"
      show "scan_invariant e u" by (rule scan_invariant_s3_step[OF s u])
    qed
  next
    case rds
    from r obtain xs where
      l: "fst (for_of xs (scan_rds_step e rgn (thirtyDaysAgo_of e)) acc) = Inr acc'"
      and xs: "\<forall>x \<in> set xs. \<exists>raw. x = rds_record ''rds'' rgn raw"
      unfolding scan_service_def rds
      by (simp only: simp_thms if_True if_False list.inject char.inject)
         (erule bind_prov_InrE, rule that, assumption, auto)
    show ?thesis
    proof (rule for_of_invariant[OF l, where P = "scan_invariant e", OF inv])
      fix x s u
      assume x: "x \<in> set xs" and s: "scan_invariant e s"
        and u: "fst (scan_rds_step e rgn (thirtyDaysAgo_of e) x s) = Inr u"
      from xs x obtain raw where raw: "x = rds_record ''rds'' rgn raw" by auto
      show "scan_invariant e u" by (rule scan_invariant_rds_step[OF s u[unfolded raw]])
    qed
  next
    case lam
    from r obtain xs where
      l: "fst (for_of xs (scan_lambda_step e rgn (thirtyDaysAgo_of e)) acc) = Inr acc'"
      and xs: "\<forall>x \<in> set xs. \<exists>raw. x = lambda_record ''lambda'' rgn raw"
      unfolding scan_service_def lam
      by (simp only: simp_thms if_True if_False list.inject char.inject)
         (erule bind_prov_InrE, rule that, assumption, auto)
    show ?thesis
    proof (rule for_of_invariant[OF l, where P = "scan_invariant e", OF inv])
      fix x s u
      assume x: "x \<in> set xs" and s: "scan_invariant e s"
        and u: "fst (scan_lambda_step e rgn (thirtyDaysAgo_of e) x s) = Inr u"
      from xs x obtain raw where raw: "x = lambda_record ''lambda'' rgn raw" by auto
      show "scan_invariant e u" by (rule scan_invariant_lambda_step[OF s u[unfolded raw]])
    qed
  next
    case bad
    with r inv show ?thesis by (simp add: scan_service_def)
  qed
qed

lemma scan_resources_invariant:
  assumes r: "fst (scan_resources e) = Inr acc"
  shows "scan_invariant e acc"
proof -
  from r obtain regions where
    l: "fst (for_of regions (\<lambda>rgn. for_of services (scan_service e rgn (thirtyDaysAgo_of e)))
              ([], [])) = Inr acc"
    unfolding scan_resources_def by (rule bind_prov_InrE)
  have start: "scan_invariant e ([], [])" by (simp add: scan_invariant_def)
  show ?thesis
  proof (rule for_of_invariant[OF l, where P = "scan_invariant e", OF start])
    fix rgn s u
    assume s: "scan_invariant e s"
      and i: "fst (for_of services (scan_service e rgn (thirtyDaysAgo_of e)) s) = Inr u"
    show "scan_invariant e u"
      by (rule for_of_invariant[OF i, where P = "scan_invariant e", OF s])
         (rule scan_service_invariant)
  qed
qed

lemma classified_s3_record: "classified e (s3_record ''s3'' rgn b n sz)"
  by (simp add: classified_def)

lemma classified_ebs_record: "classified e (ebs_record ''ebs'' rgn v)"
  by (simp add: classified_def)

lemma fetchServiceResources_classified:
  assumes r: "fst (fetchServiceResources e svc rgn) = Inr (rs, t)"
  shows "\<forall>r \<in> set rs. service r = svc \<and> region r = rgn \<and> classified e r"
proof -
  let ?P = "\<lambda>acc :: resource list \<times> real.
              \<forall>r \<in> set (fst acc). service r = svc \<and> region r = rgn \<and> classified e r"
  consider (ec2) "svc = ''ec2''" | (ebs) "svc = ''ebs''" | (s3) "svc = ''s3''"
    | (rds) "svc = ''rds''" | (lam) "svc = ''lambda''"
    | (bad) "svc \<noteq> ''ec2''" "svc \<noteq> ''ebs''" "svc \<noteq> ''s3''" "svc \<noteq> ''rds''" "svc \<noteq> ''lambda''"
    by blast
  then have "?P (rs, t)"
  proof cases
    case ec2
    from r obtain xs where
      l: "fst (for_of xs (visit (fetch_ec2_instance e rgn)) ([], 0)) = Inr (rs, t)"
      and xs: "\<forall>x \<in> set xs. \<exists>raw. x = ec2_record ''ec2'' rgn raw"
      unfolding fetchServiceResources_def ec2
      by (simp only: simp_thms if_True) (erule bind_prov_InrE, rule that, assumption, auto)
    show ?thesis
    proof (rule for_of_visit_invariant[OF l, where P = ?P])
      show "?P ([], 0)" by simp
    next
      fix x rs t r' t'
      assume x: "x \<in> set xs" and p: "?P (rs, t)"
        and b: "fst (fetch_ec2_instance e rgn x t) = Inr (r', t')"
      from xs x obtain raw where raw: "x = ec2_record ''ec2'' rgn raw" by auto
      from fetch_ec2_instance_classified[OF b[unfolded raw]] p ec2
      show "?P (rs @ [r'], t')" by auto
    qed
  next
    case ebs
    from r obtain xs where
      l: "fst (for_of xs (\<lambda>vol (resources, totalCostEstimate).
                  return_prov (resources @ [ebs_record svc rgn vol],
                               totalCostEstimate + monthlyCost (ebs_record svc rgn vol)))
               ([], 0)) = Inr (rs, t)"
      unfolding fetchServiceResources_def ebs
      by (simp only: simp_thms if_True if_False list.inject char.inject) (erule bind_prov_InrE)
    show ?thesis
    proof (rule for_of_invariant[OF l, where P = ?P])
      show "?P ([], 0)" by simp
    next
      fix x s u
      assume p: "?P s"
        and b: "fst ((\<lambda>(resources, totalCostEstimate).
                  return_prov (resources @ [ebs_record svc rgn x],
                               totalCostEstimate + monthlyCost (ebs_record svc rgn x))) s) = Inr u"
      obtain rs0 t0 where s: "s = (rs0, t0)" by (cases s)
      from b have "u = (rs0 @ [ebs_record svc rgn x], t0 + monthlyCost (ebs_record svc rgn x))"
        unfolding s by simp
      with p classified_ebs_record[of e rgn x] show "?P u" unfolding s ebs by auto
    qed
  next
    case s3
    from r obtain xs where
      l: "fst (for_of xs (fetch_s3_bucket e svc rgn) ([], 0)) = Inr (rs, t)"
      unfolding fetchServiceResources_def s3
      by (simp only: simp_thms if_True if_False list.inject char.inject) (erule bind_prov_InrE)
    show ?thesis
    proof (rule for_of_invariant[OF l, where P = ?P])
      show "?P ([], 0)" by simp
    next
      fix x s u
      assume a: "x \<in> set xs" "?P s" "fst (fetch_s3_bucket e svc rgn x s) = Inr u"
      obtain rs0 t0 where s: "s = (rs0, t0)" by (cases s)
      from a(3) have "fst (fetch_s3_bucket e svc rgn x (rs0, t0)) = Inr u" unfolding s .
      from fetch_s3_bucket_cases[OF this] a(2) classified_s3_record[of e rgn x] show "?P u"
        unfolding s s3 by auto
    qed
  next
    case rds
    from r obtain xs where
      l: "fst (for_of xs (visit (fetch_rds_instance e rgn)) ([], 0)) = Inr (rs, t)"
      and xs: "\<forall>x \<in> set xs. \<exists>raw. x = rds_record ''rds'' rgn raw"
      unfolding fetchServiceResources_def rds
      by (simp only: simp_thms if_True if_False list.inject char.inject)
         (erule bind_prov_InrE, rule that, assumption, auto)
    show ?thesis
    proof (rule for_of_visit_invariant[OF l, where P = ?P])
      show "?P ([], 0)" by simp
    next
      fix x rs t r' t'
      assume x: "x \<in> set xs" and p: "?P (rs, t)"
        and b: "fst (fetch_rds_instance e rgn x t) = Inr (r', t')"
      from xs x obtain raw where raw: "x = rds_record ''rds'' rgn raw" by auto
      from fetch_rds_instance_classified[OF b[unfolded raw]] p rds
      show "?P (rs @ [r'], t')" by auto
    qed
  next
    case lam
    from r obtain xs where
      l: "fst (for_of xs (visit (fetch_lambda_function e rgn)) ([], 0)) = Inr (rs, t)"
      and xs: "\<forall>x \<in> set xs. \<exists>raw. x = lambda_record ''lambda'' rgn raw"
      unfolding fetchServiceResources_def lam
      by (simp only: simp_thms if_True if_False list.inject char.inject)
         (erule bind_prov_InrE, rule that, assumption, auto)
    show ?thesis
    proof (rule for_of_visit_invariant[OF l, where P = ?P])
      show "?P ([], 0)" by simp
    next
      fix x rs t r' t'
      assume x: "x \<in> set xs" and p: "?P (rs, t)"
        and b: "fst (fetch_lambda_function e rgn x t) = Inr (r', t')"
      from xs x obtain raw where raw: "x = lambda_record ''lambda'' rgn raw" by auto
      from fetch_lambda_function_classified[OF b[unfolded raw]] p lam
      show "?P (rs @ [r'], t')" by auto
    qed
  next
    case bad
    with r show ?thesis by (simp add: fetchServiceResources_def)
  qed
  then show ?thesis by simp
qed



subsection \<open>Evaluation and consequences of the classification\<close>

lemmas prov_defs = bind_prov_def return_prov_def throw_prov_def send_prov_def try_prov_def

lemmas helper_defs = getMetric_def getMetric_params_def getHourlyPrice_def getHourlyPrice_try_def
  getHourlyPrice_params_def getAllRegions_def location_of_def regionToLocation_def
  bucketRegion_of_def

lemma classified_cpu:
  assumes c: "classified e r"
    and k: "(service r = ''ec2'' \<and> state r = Some ''running''
               \<and> ns = ''AWS/EC2'' \<and> dname = ''InstanceId'')
            \<or> (service r = ''rds'' \<and> state r = Some ''available''
               \<and> ns = ''AWS/RDS'' \<and> dname = ''DBInstanceIdentifier'')"
  shows "\<exists>p. fst (getMetric e (region r) ns ''CPUUtilization'' [(dname, id' r)] ''Average'' 1) = Inr p
           \<and> avgCpu r = Some p
           \<and> (p < 1 \<longrightarrow> usageStatus r = ''idle'')
           \<and> (1 \<le> p \<and> p < 10 \<longrightarrow> usageStatus r = ''underutilized'')
           \<and> (10 \<le> p \<longrightarrow> usageStatus r = ''used'')"
  using k
proof
  assume a: "service r = ''ec2'' \<and> state r = Some ''running''
               \<and> ns = ''AWS/EC2'' \<and> dname = ''InstanceId''"
  with c have "cpu_classified e ''AWS/EC2'' ''InstanceId'' ''running'' r"
    by (simp add: classified_def)
  with a show ?thesis
    by (cases "fst (getMetric e (region r) ''AWS/EC2'' ''CPUUtilization''
                      [(''InstanceId'', id' r)] ''Average'' 1)")
       (simp_all add: cpu_classified_def)
next
  assume a: "service r = ''rds'' \<and> state r = Some ''available''
               \<and> ns = ''AWS/RDS'' \<and> dname = ''DBInstanceIdentifier''"
  with c have "cpu_classified e ''AWS/RDS'' ''DBInstanceIdentifier'' ''available'' r"
    by (simp add: classified_def)
  with a show ?thesis
    by (cases "fst (getMetric e (region r) ''AWS/RDS'' ''CPUUtilization''
                      [(''DBInstanceIdentifier'', id' r)] ''Average'' 1)")
       (simp_all add: cpu_classified_def)
qed

text \<open>Every record a fetch returns or a scan collects is classified.\<close>

lemma produced_classified:
  assumes "(fst (fetchServiceResources e svc rgn) = Inr (rs, t) \<and> r \<in> set rs)
           \<or> (fst (scan_resources e) = Inr (unused, longIdle)
               \<and> (r \<in> set unused \<or> r \<in> set longIdle))"
  shows "classified e r"
  using assms
proof
  assume a: "fst (fetchServiceResources e svc rgn) = Inr (rs, t) \<and> r \<in> set rs"
  then have "fst (fetchServiceResources e svc rgn) = Inr (rs, t)" and "r \<in> set rs" by simp_all
  from fetchServiceResources_classified[OF this(1)] this(2) show ?thesis by simp
next
  assume a: "fst (scan_resources e) = Inr (unused, longIdle)
               \<and> (r \<in> set unused \<or> r \<in> set longIdle)"
  then have s: "fst (scan_resources e) = Inr (unused, longIdle)"
    and m: "r \<in> set unused \<or> r \<in> set longIdle" by simp_all
  from scan_resources_invariant[OF s] m show ?thesis by (auto simp: scan_invariant_def)
qed

lemma classified_stopped:
  assumes c: "classified e r" and k: "service r = ''ec2'' \<or> service r = ''rds''"
    and s: "state r = Some ''stopped''"
  shows "usageStatus r = ''stopped'' \<and> monthlyCost r = 0"
  using assms by (auto simp: classified_def cpu_classified_def)


subsection \<open>The notifier's trace and the function cost\<close>

lemma notifications_Provider [simp]: "notifications (map Provider cs) = []"
  by (induction cs) simp_all

lemma notifications_append [simp]:
  "notifications (xs @ ys) = notifications xs @ notifications ys"
  by (induction xs rule: notifications.induct) simp_all

lemma notifications_sendNotification [simp]:
  "notifications (snd (sendNotification e rs m)) = [(rs, m)]"
  by (simp add: sendNotification_def Let_def split: option.splits)

lemma function_cost_positive:
  assumes "0 < (i::real)" and "0 \<le> (d::real)"
  shows "0 < (i * 0.0000002 + ((d / 1000) * i * (real m / 1024)) * 0.0000166667) * 30"
proof -
  have "0 \<le> (d / 1000) * i * (real m / 1024) * 0.0000166667"
    using assms by (intro mult_nonneg_nonneg) simp_all
  moreover have "0 < i * 0.0000002" using assms by simp
  ultimately show ?thesis by simp
qed

subsection \<open>What the bodies produce for a running instance and an available database\<close>

lemma fetch_ec2_instance_running:
  assumes "state inst = Some ''running''"
    and "fst (getMetric e rgn ''AWS/EC2'' ''CPUUtilization'' [(''InstanceId'', id' inst)]
               ''Average'' 1) = Inr p"
  shows "\<exists>c t'. fst (fetch_ec2_instance e rgn inst t) =
           Inr (inst\<lparr>avgCpu := Some p,
                     usageStatus := (if p < 1 then ''idle''
                                     else if p < 10 then ''underutilized'' else ''used''),
                     monthlyCost := c\<rparr>, t')"
proof -
  obtain h where
    h: "fst (getHourlyPrice e ''AmazonEC2'' (ec2_filters (type' inst) (location_of rgn))) = Inr h"
    using getHourlyPrice_returns ..
  have "fst (fetch_ec2_instance e rgn inst t) =
           Inr (inst\<lparr>avgCpu := Some p,
                     usageStatus := (if p < 1 then ''idle''
                                     else if p < 10 then ''underutilized'' else ''used''),
                     monthlyCost := (if location_of rgn \<noteq> [] then h * 730 else monthlyCost inst)\<rparr>,
                if location_of rgn \<noteq> [] then t + h * 730 else t)"
    using assms h by (simp add: fetch_ec2_instance_def fst_bind_prov_case Let_def)
  then show ?thesis by (intro exI)
qed

lemma fetch_rds_instance_available:
  assumes "state db = Some ''available''"
    and "fst (getMetric e rgn ''AWS/RDS'' ''CPUUtilization'' [(''DBInstanceIdentifier'', id' db)]
               ''Average'' 1) = Inr p"
    and "engine db = Some eng"
  shows "\<exists>c t'. fst (fetch_rds_instance e rgn db t) =
           Inr (db\<lparr>avgCpu := Some p,
                   usageStatus := (if p < 1 then ''idle''
                                   else if p < 10 then ''underutilized'' else ''used''),
                   monthlyCost := c\<rparr>, t')"
proof -
  obtain h where
    h: "fst (getHourlyPrice e ''AmazonRDS''
               (rds_filters (type' db) (capitalize eng) (location_of rgn))) = Inr h"
    using getHourlyPrice_returns ..
  have "fst (fetch_rds_instance e rgn db t) =
           Inr (db\<lparr>avgCpu := Some p,
                   usageStatus := (if p < 1 then ''idle''
                                   else if p < 10 then ''underutilized'' else ''used''),
                   monthlyCost := (if location_of rgn \<noteq> [] then h * 730 else monthlyCost db)\<rparr>,
                if location_of rgn \<noteq> [] then t + h * 730 else t)"
    using assms h by (simp add: fetch_rds_instance_def fst_bind_prov_case Let_def)
  then show ?thesis by (intro exI)
qed

lemma scan_ec2_step_running:
  assumes "state inst = Some ''running''"
    and "fst (getMetric e rgn ''AWS/EC2'' ''CPUUtilization'' [(''InstanceId'', id' inst)]
               ''Average'' 1) = Inr p"
    and "fst (getMetric e rgn ''AWS/EC2'' ''CPUUtilization'' [(''InstanceId'', id' inst)]
               ''Average'' 30) = Inr m"
  shows "\<exists>c. fst (scan_ec2_step e rgn T inst (u, l)) =
           Inr (if p < 10
                then u @ [inst\<lparr>avgCpu := Some p,
                               usageStatus := (if p < 1 then ''idle''
                                               else if p < 10 then ''underutilized'' else ''used''),
                               monthlyCost := c\<rparr>]
                else u,
                if creation inst < T \<and> m < 1
                then l @ [inst\<lparr>avgCpu := Some p,
                               usageStatus := (if p < 1 then ''idle''
                                               else if p < 10 then ''underutilized'' else ''used''),
                               monthlyCost := c\<rparr>]
                else l)"
proof -
  obtain h where
    h: "fst (getHourlyPrice e ''AmazonEC2'' (ec2_filters (type' inst) (location_of rgn))) = Inr h"
    using getHourlyPrice_returns ..
  let ?r = "inst\<lparr>avgCpu := Some p,
                  usageStatus := (if p < 1 then ''idle''
                                  else if p < 10 then ''underutilized'' else ''used''),
                  monthlyCost := (if location_of rgn \<noteq> [] then h * 730 else monthlyCost inst)\<rparr>"
  have b: "fst (scan_ec2_instance e rgn inst) = Inr (?r, m)"
    using assms h by (simp add: scan_ec2_instance_def fst_bind_prov_case Let_def)
  have "fst (scan_ec2_step e rgn T inst (u, l)) =
           Inr (if p < 10 then u @ [?r] else u, if creation inst < T \<and> m < 1 then l @ [?r] else l)"
    using assms(1) by (simp add: scan_ec2_step_def fst_bind_prov_case b)
  then show ?thesis by (intro exI)
qed

lemma scan_rds_step_available:
  assumes "state db = Some ''available''"
    and "fst (getMetric e rgn ''AWS/RDS'' ''CPUUtilization'' [(''DBInstanceIdentifier'', id' db)]
               ''Average'' 1) = Inr p"
    and "fst (getMetric e rgn ''AWS/RDS'' ''CPUUtilization'' [(''DBInstanceIdentifier'', id' db)]
               ''Average'' 30) = Inr m"
    and "engine db = Some eng"
  shows "\<exists>c. fst (scan_rds_step e rgn T db (u, l)) =
           Inr (if p < 10
                then u @ [db\<lparr>avgCpu := Some p,
                             usageStatus := (if p < 1 then ''idle''
                                             else if p < 10 then ''underutilized'' else ''used''),
                             monthlyCost := c\<rparr>]
                else u,
                if creation db < T \<and> m < 1
                then l @ [db\<lparr>avgCpu := Some p,
                             usageStatus := (if p < 1 then ''idle''
                                             else if p < 10 then ''underutilized'' else ''used''),
                             monthlyCost := c\<rparr>]
                else l)"
proof -
  obtain h where
    h: "fst (getHourlyPrice e ''AmazonRDS''
               (rds_filters (type' db) (capitalize eng) (location_of rgn))) = Inr h"
    using getHourlyPrice_returns ..
  let ?r = "db\<lparr>avgCpu := Some p,
                usageStatus := (if p < 1 then ''idle''
                                else if p < 10 then ''underutilized'' else ''used''),
                monthlyCost := (if location_of rgn \<noteq> [] then h * 730 else monthlyCost db)\<rparr>"
  have b: "fst (scan_rds_instance e rgn db) = Inr (?r, m)"
    using assms h by (simp add: scan_rds_instance_def fst_bind_prov_case Let_def)
  have "fst (scan_rds_step e rgn T db (u, l)) =
           Inr (if p < 10 then u @ [?r] else u, if creation db < T \<and> m < 1 then l @ [?r] else l)"
    using assms(1) by (simp add: scan_rds_step_def fst_bind_prov_case b)
  then show ?thesis by (intro exI)
qed

section \<open>The claims\<close>

text \<open>
  Claim C1. Every record of a running compute instance or an available database that
  \<open>fetchServiceResources\<close> returns or a scan collects carries the one-day CPU average
  \<open>p\<close> the metrics service reported for it, and its \<open>usageStatus\<close> is \<open>idle\<close> when
  \<open>p < 1\<close>, \<open>underutilized\<close> when \<open>1 \<le> p < 10\<close> and \<open>used\<close> when \<open>p \<ge> 10\<close>: the
  boundaries 1 and 10 fall into the higher class. The loop bodies produce these records:
  when the metrics service reports the one-day average \<open>q\<close> for a running instance or an
  available database, the body of \<open>fetchServiceResources\<close> returns its record with
  \<open>avgCpu = q\<close> and the status of \<open>q\<close>, and the body of the scan, given also the 30-day
  average \<open>m\<close>, appends that record to \<open>unusedResources\<close> unless its status is \<open>used\<close>,
  and to \<open>longIdleResources\<close> when the resource was created before \<open>thirtyDaysAgo\<close> and
  \<open>m < 1\<close>.
\<close>

theorem cpu_thresholds:
  "(((fst (fetchServiceResources e svc rgn) = Inr (rs, t) \<and> r \<in> set rs)
      \<or> (fst (scan_resources e) = Inr (unused, longIdle)
          \<and> (r \<in> set unused \<or> r \<in> set longIdle)))
     \<and> ((service r = ''ec2'' \<and> state r = Some ''running''
            \<and> ns = ''AWS/EC2'' \<and> dname = ''InstanceId'')
         \<or> (service r = ''rds'' \<and> state r = Some ''available''
            \<and> ns = ''AWS/RDS'' \<and> dname = ''DBInstanceIdentifier''))
    \<longrightarrow> (\<exists>p. fst (getMetric e (region r) ns ''CPUUtilization'' [(dname, id' r)] ''Average'' 1) = Inr p
           \<and> avgCpu r = Some p
           \<and> (p < 1 \<longrightarrow> usageStatus r = ''idle'')
           \<and> (1 \<le> p \<and> p < 10 \<longrightarrow> usageStatus r = ''underutilized'')
           \<and> (10 \<le> p \<longrightarrow> usageStatus r = ''used'')))
   \<and> (state inst = Some ''running''
       \<and> fst (getMetric e rg ''AWS/EC2'' ''CPUUtilization'' [(''InstanceId'', id' inst)]
                 ''Average'' 1) = Inr q
      \<longrightarrow> (\<exists>inst' t'. fst (fetch_ec2_instance e rg inst t0) = Inr (inst', t')
             \<and> id' inst' = id' inst \<and> state inst' = state inst \<and> avgCpu inst' = Some q
             \<and> (q < 1 \<longrightarrow> usageStatus inst' = ''idle'')
             \<and> (1 \<le> q \<and> q < 10 \<longrightarrow> usageStatus inst' = ''underutilized'')
             \<and> (10 \<le> q \<longrightarrow> usageStatus inst' = ''used'')))
   \<and> (state db = Some ''available'' \<and> engine db = Some eng
       \<and> fst (getMetric e rg ''AWS/RDS'' ''CPUUtilization'' [(''DBInstanceIdentifier'', id' db)]
                 ''Average'' 1) = Inr q'
      \<longrightarrow> (\<exists>db' t'. fst (fetch_rds_instance e rg db t0) = Inr (db', t')
             \<and> id' db' = id' db \<and> state db' = state db \<and> avgCpu db' = Some q'
             \<and> (q' < 1 \<longrightarrow> usageStatus db' = ''idle'')
             \<and> (1 \<le> q' \<and> q' < 10 \<longrightarrow> usageStatus db' = ''underutilized'')
             \<and> (10 \<le> q' \<longrightarrow> usageStatus db' = ''used'')))
   \<and> (state inst = Some ''running''
       \<and> fst (getMetric e rg ''AWS/EC2'' ''CPUUtilization'' [(''InstanceId'', id' inst)]
                 ''Average'' 1) = Inr q
       \<and> fst (getMetric e rg ''AWS/EC2'' ''CPUUtilization'' [(''InstanceId'', id' inst)]
                 ''Average'' 30) = Inr m
      \<longrightarrow> (\<exists>inst'. fst (scan_ec2_step e rg T inst (u, l))
                       = Inr (if usageStatus inst' \<noteq> ''used'' then u @ [inst'] else u,
                              if creation inst < T \<and> m < 1 then l @ [inst'] else l)
             \<and> id' inst' = id' inst \<and> state inst' = state inst \<and> avgCpu inst' = Some q
             \<and> (q < 1 \<longrightarrow> usageStatus inst' = ''idle'')
             \<and> (1 \<le> q \<and> q < 10 \<longrightarrow> usageStatus inst' = ''underutilized'')
             \<and> (10 \<le> q \<longrightarrow> usageStatus inst' = ''used'')))
   \<and> (state db = Some ''available'' \<and> engine db = Some eng
       \<and> fst (getMetric e rg ''AWS/RDS'' ''CPUUtilization'' [(''DBInstanceIdentifier'', id' db)]
                 ''Average'' 1) = Inr q'
       \<and> fst (getMetric e rg ''AWS/RDS'' ''CPUUtilization'' [(''DBInstanceIdentifier'', id' db)]
                 ''Average'' 30) = Inr m'
      \<longrightarrow> (\<exists>db'. fst (scan_rds_step e rg T db (u, l))
                       = Inr (if usageStatus db' \<noteq> ''used'' then u @ [db'] else u,
                              if creation db < T \<and> m' < 1 then l @ [db'] else l)
             \<and> id' db' = id' db \<and> state db' = state db \<and> avgCpu db' = Some q'
             \<and> (q' < 1 \<longrightarrow> usageStatus db' = ''idle'')
             \<and> (1 \<le> q' \<and> q' < 10 \<longrightarrow> usageStatus db' = ''underutilized'')
             \<and> (10 \<le> q' \<longrightarrow> usageStatus db' = ''used'')))"
proof (intro conjI impI)
  assume a: "((fst (fetchServiceResources e svc rgn) = Inr (rs, t) \<and> r \<in> set rs)
      \<or> (fst (scan_resources e) = Inr (unused, longIdle)
          \<and> (r \<in> set unused \<or> r \<in> set longIdle)))
     \<and> ((service r = ''ec2'' \<and> state r = Some ''running''
            \<and> ns = ''AWS/EC2'' \<and> dname = ''InstanceId'')
         \<or> (service r = ''rds'' \<and> state r = Some ''available''
            \<and> ns = ''AWS/RDS'' \<and> dname = ''DBInstanceIdentifier''))"
  show "\<exists>p. fst (getMetric e (region r) ns ''CPUUtilization'' [(dname, id' r)] ''Average'' 1) = Inr p
           \<and> avgCpu r = Some p
           \<and> (p < 1 \<longrightarrow> usageStatus r = ''idle'')
           \<and> (1 \<le> p \<and> p < 10 \<longrightarrow> usageStatus r = ''underutilized'')
           \<and> (10 \<le> p \<longrightarrow> usageStatus r = ''used'')"
    by (rule classified_cpu[OF produced_classified[OF conjunct1[OF a]] conjunct2[OF a]])
next
  assume "state inst = Some ''running''
       \<and> fst (getMetric e rg ''AWS/EC2'' ''CPUUtilization'' [(''InstanceId'', id' inst)]
                 ''Average'' 1) = Inr q"
  then have a1: "state inst = Some ''running''"
    and a2: "fst (getMetric e rg ''AWS/EC2'' ''CPUUtilization'' [(''InstanceId'', id' inst)]
                 ''Average'' 1) = Inr q"
    by simp_all
  from fetch_ec2_instance_running[OF a1 a2, of t0]
  obtain c t' where f: "fst (fetch_ec2_instance e rg inst t0) =
                     Inr (inst\<lparr>avgCpu := Some q,
                         usageStatus := (if q < 1 then ''idle''
                                         else if q < 10 then ''underutilized'' else ''used''),
                         monthlyCost := c\<rparr>, t')"
    by (elim exE)
  show "\<exists>inst' t'. fst (fetch_ec2_instance e rg inst t0) = Inr (inst', t')
             \<and> id' inst' = id' inst \<and> state inst' = state inst \<and> avgCpu inst' = Some q
             \<and> (q < 1 \<longrightarrow> usageStatus inst' = ''idle'')
             \<and> (1 \<le> q \<and> q < 10 \<longrightarrow> usageStatus inst' = ''underutilized'')
             \<and> (10 \<le> q \<longrightarrow> usageStatus inst' = ''used'')"
    by (rule exI, rule exI, rule conjI, rule f) simp
next
  assume "state db = Some ''available'' \<and> engine db = Some eng
       \<and> fst (getMetric e rg ''AWS/RDS'' ''CPUUtilization'' [(''DBInstanceIdentifier'', id' db)]
                 ''Average'' 1) = Inr q'"
  then have a1: "state db = Some ''available''" and a0: "engine db = Some eng"
    and a2: "fst (getMetric e rg ''AWS/RDS'' ''CPUUtilization'' [(''DBInstanceIdentifier'', id' db)]
                 ''Average'' 1) = Inr q'"
    by simp_all
  from fetch_rds_instance_available[OF a1 a2 a0, of t0]
  obtain c t' where f: "fst (fetch_rds_instance e rg db t0) =
                     Inr (db\<lparr>avgCpu := Some q',
                         usageStatus := (if q' < 1 then ''idle''
                                         else if q' < 10 then ''underutilized'' else ''used''),
                         monthlyCost := c\<rparr>, t')"
    by (elim exE)
  show "\<exists>db' t'. fst (fetch_rds_instance e rg db t0) = Inr (db', t')
             \<and> id' db' = id' db \<and> state db' = state db \<and> avgCpu db' = Some q'
             \<and> (q' < 1 \<longrightarrow> usageStatus db' = ''idle'')
             \<and> (1 \<le> q' \<and> q' < 10 \<longrightarrow> usageStatus db' = ''underutilized'')
             \<and> (10 \<le> q' \<longrightarrow> usageStatus db' = ''used'')"
    by (rule exI, rule exI, rule conjI, rule f) simp
next
  assume "state inst = Some ''running''
       \<and> fst (getMetric e rg ''AWS/EC2'' ''CPUUtilization'' [(''InstanceId'', id' inst)]
                 ''Average'' 1) = Inr q
       \<and> fst (getMetric e rg ''AWS/EC2'' ''CPUUtilization'' [(''InstanceId'', id' inst)]
                 ''Average'' 30) = Inr m"
  then have a1: "state inst = Some ''running''"
    and a2: "fst (getMetric e rg ''AWS/EC2'' ''CPUUtilization'' [(''InstanceId'', id' inst)]
                 ''Average'' 1) = Inr q"
    and a3: "fst (getMetric e rg ''AWS/EC2'' ''CPUUtilization'' [(''InstanceId'', id' inst)]
                 ''Average'' 30) = Inr m"
    by simp_all
  from scan_ec2_step_running[OF a1 a2 a3, of T u l]
  obtain c where f: "fst (scan_ec2_step e rg T inst (u, l)) =
           Inr (if q < 10
                then u @ [inst\<lparr>avgCpu := Some q,
                         usageStatus := (if q < 1 then ''idle''
                                         else if q < 10 then ''underutilized'' else ''used''),
                         monthlyCost := c\<rparr>]
                else u,
                if creation inst < T \<and> m < 1
                then l @ [inst\<lparr>avgCpu := Some q,
                         usageStatus := (if q < 1 then ''idle''
                                         else if q < 10 then ''underutilized'' else ''used''),
                         monthlyCost := c\<rparr>]
                else l)"
    by (elim exE)
  show "\<exists>inst'. fst (scan_ec2_step e rg T inst (u, l))
                       = Inr (if usageStatus inst' \<noteq> ''used'' then u @ [inst'] else u,
                              if creation inst < T \<and> m < 1 then l @ [inst'] else l)
             \<and> id' inst' = id' inst \<and> state inst' = state inst \<and> avgCpu inst' = Some q
             \<and> (q < 1 \<longrightarrow> usageStatus inst' = ''idle'')
             \<and> (1 \<le> q \<and> q < 10 \<longrightarrow> usageStatus inst' = ''underutilized'')
             \<and> (10 \<le> q \<longrightarrow> usageStatus inst' = ''used'')"
    by (rule exI[of _ "inst\<lparr>avgCpu := Some q,
                         usageStatus := (if q < 1 then ''idle''
                                         else if q < 10 then ''underutilized'' else ''used''),
                         monthlyCost := c\<rparr>"])
       (simp add: f)
next
  assume "state db = Some ''available'' \<and> engine db = Some eng
       \<and> fst (getMetric e rg ''AWS/RDS'' ''CPUUtilization'' [(''DBInstanceIdentifier'', id' db)]
                 ''Average'' 1) = Inr q'
       \<and> fst (getMetric e rg ''AWS/RDS'' ''CPUUtilization'' [(''DBInstanceIdentifier'', id' db)]
                 ''Average'' 30) = Inr m'"
  then have a1: "state db = Some ''available''" and a0: "engine db = Some eng"
    and a2: "fst (getMetric e rg ''AWS/RDS'' ''CPUUtilization'' [(''DBInstanceIdentifier'', id' db)]
                 ''Average'' 1) = Inr q'"
    and a3: "fst (getMetric e rg ''AWS/RDS'' ''CPUUtilization'' [(''DBInstanceIdentifier'', id' db)]
                 ''Average'' 30) = Inr m'"
    by simp_all
  from scan_rds_step_available[OF a1 a2 a3 a0, of T u l]
  obtain c where f: "fst (scan_rds_step e rg T db (u, l)) =
           Inr (if q' < 10
                then u @ [db\<lparr>avgCpu := Some q',
                         usageStatus := (if q' < 1 then ''idle''
                                         else if q' < 10 then ''underutilized'' else ''used''),
                         monthlyCost := c\<rparr>]
                else u,
                if creation db < T \<and> m' < 1
                then l @ [db\<lparr>avgCpu := Some q',
                         usageStatus := (if q' < 1 then ''idle''
                                         else if q' < 10 then ''underutilized'' else ''used''),
                         monthlyCost := c\<rparr>]
                else l)"
    by (elim exE)
  show "\<exists>db'. fst (scan_rds_step e rg T db (u, l))
                       = Inr (if usageStatus db' \<noteq> ''used'' then u @ [db'] else u,
                              if creation db < T \<and> m' < 1 then l @ [db'] else l)
             \<and> id' db' = id' db \<and> state db' = state db \<and> avgCpu db' = Some q'
             \<and> (q' < 1 \<longrightarrow> usageStatus db' = ''idle'')
             \<and> (1 \<le> q' \<and> q' < 10 \<longrightarrow> usageStatus db' = ''underutilized'')
             \<and> (10 \<le> q' \<longrightarrow> usageStatus db' = ''used'')"
    by (rule exI[of _ "db\<lparr>avgCpu := Some q',
                         usageStatus := (if q' < 1 then ''idle''
                                         else if q' < 10 then ''underutilized'' else ''used''),
                         monthlyCost := c\<rparr>"])
       (simp add: f)
qed

theorem cpu_thresholds_witness:
  "fst (scan_resources (cpu_env 1))
     = Inr ([(ec2_record ''ec2'' ''us-east-1'' running_instance)
               \<lparr>avgCpu := Some 1, usageStatus := ''underutilized'', monthlyCost := 0\<rparr>,
             (rds_record ''rds'' ''us-east-1'' available_db)
               \<lparr>avgCpu := Some 1, usageStatus := ''underutilized'', monthlyCost := 0\<rparr>], [])
   \<and> fst (scan_resources (cpu_env (1 / 2)))
     = Inr ([(ec2_record ''ec2'' ''us-east-1'' running_instance)
               \<lparr>avgCpu := Some (1 / 2), usageStatus := ''idle'', monthlyCost := 0\<rparr>,
             (rds_record ''rds'' ''us-east-1'' available_db)
               \<lparr>avgCpu := Some (1 / 2), usageStatus := ''idle'', monthlyCost := 0\<rparr>],
            [(ec2_record ''ec2'' ''us-east-1'' running_instance)
               \<lparr>avgCpu := Some (1 / 2), usageStatus := ''idle'', monthlyCost := 0\<rparr>,
             (rds_record ''rds'' ''us-east-1'' available_db)
               \<lparr>avgCpu := Some (1 / 2), usageStatus := ''idle'', monthlyCost := 0\<rparr>])
   \<and> fst (scan_resources (cpu_env 10)) = Inr ([], [])
   \<and> fst (fetchServiceResources (cpu_env 10) ''ec2'' ''us-east-1'')
     = Inr ([(ec2_record ''ec2'' ''us-east-1'' running_instance)
               \<lparr>avgCpu := Some 10, usageStatus := ''used'', monthlyCost := 0\<rparr>], 0)
   \<and> fst (fetchServiceResources (cpu_env 10) ''rds'' ''us-east-1'')
     = Inr ([(rds_record ''rds'' ''us-east-1'' available_db)
               \<lparr>avgCpu := Some 10, usageStatus := ''used'', monthlyCost := 0\<rparr>], 0)
   \<and> (\<exists>p. fst (getMetric (cpu_env 1) ''us-east-1'' ''AWS/RDS'' ''CPUUtilization''
                  [(''DBInstanceIdentifier'', Some ''db-1'')] ''Average'' 1) = Inr p
          \<and> p = 1)
   \<and> (\<exists>inst'. fst (scan_ec2_step (cpu_env 1) ''us-east-1'' (thirtyDaysAgo_of (cpu_env 1))
                      (ec2_record ''ec2'' ''us-east-1'' running_instance) ([], []))
                 = Inr ([inst'], [])
          \<and> avgCpu inst' = Some 1 \<and> usageStatus inst' = ''underutilized'')
   \<and> (\<exists>db'. fst (scan_rds_step (cpu_env 1) ''us-east-1'' (thirtyDaysAgo_of (cpu_env 1))
                      (rds_record ''rds'' ''us-east-1'' available_db) ([], []))
                 = Inr ([db'], [])
          \<and> avgCpu db' = Some 1 \<and> usageStatus db' = ''underutilized'')
   \<and> (\<exists>inst' t'. fst (fetch_ec2_instance (cpu_env 1) ''us-east-1''
                      (ec2_record ''ec2'' ''us-east-1'' running_instance) 0) = Inr (inst', t')
          \<and> avgCpu inst' = Some 1 \<and> usageStatus inst' = ''underutilized'')
   \<and> (\<exists>db' t'. fst (fetch_rds_instance (cpu_env 1) ''us-east-1''
                      (rds_record ''rds'' ''us-east-1'' available_db) 0) = Inr (db', t')
          \<and> avgCpu db' = Some 1 \<and> usageStatus db' = ''underutilized'')"
proof -
  let ?i = "ec2_record ''ec2'' ''us-east-1'' running_instance"
  let ?b = "rds_record ''rds'' ''us-east-1'' available_db"
  let ?r = "?i\<lparr>avgCpu := Some 1, usageStatus := ''underutilized'', monthlyCost := 0\<rparr>"
  let ?d = "?b\<lparr>avgCpu := Some 1, usageStatus := ''underutilized'', monthlyCost := 0\<rparr>"
  let ?T = "thirtyDaysAgo_of (cpu_env 1)"
  note defs = scan_resources_def scan_service_def services_def thirtyDaysAgo_of_def
    fetchServiceResources_def visit_def cpu_env_def ec2_env_def quiet_env_def prov_defs helper_defs
    scan_ec2_step_def scan_ec2_instance_def scan_rds_step_def scan_rds_instance_def
    fetch_ec2_instance_def fetch_rds_instance_def
    running_instance_def available_db_def ec2_record_def rds_record_def new_resource_def
    ec2_filters_def rds_filters_def Let_def
  have s1: "fst (scan_resources (cpu_env 1)) = Inr ([?r, ?d], [])"
    by (simp add: defs)
  have s0: "fst (scan_resources (cpu_env (1 / 2)))
     = Inr ([?i\<lparr>avgCpu := Some (1 / 2), usageStatus := ''idle'', monthlyCost := 0\<rparr>,
             ?b\<lparr>avgCpu := Some (1 / 2), usageStatus := ''idle'', monthlyCost := 0\<rparr>],
            [?i\<lparr>avgCpu := Some (1 / 2), usageStatus := ''idle'', monthlyCost := 0\<rparr>,
             ?b\<lparr>avgCpu := Some (1 / 2), usageStatus := ''idle'', monthlyCost := 0\<rparr>])"
    by (simp add: defs)
  have s10: "fst (scan_resources (cpu_env 10)) = Inr ([], [])"
    by (simp add: defs)
  have f10: "fst (fetchServiceResources (cpu_env 10) ''ec2'' ''us-east-1'')
     = Inr ([?i\<lparr>avgCpu := Some 10, usageStatus := ''used'', monthlyCost := 0\<rparr>], 0)"
    by (simp add: defs)
  have g10: "fst (fetchServiceResources (cpu_env 10) ''rds'' ''us-east-1'')
     = Inr ([?b\<lparr>avgCpu := Some 10, usageStatus := ''used'', monthlyCost := 0\<rparr>], 0)"
    by (simp add: defs)
  have st: "service ?d = ''rds''" "state ?d = Some ''available''" "region ?d = ''us-east-1''"
    "id' ?d = Some ''db-1''" "state ?i = Some ''running''" "state ?b = Some ''available''"
    "engine ?b = Some ''postgres''" "id' ?i = Some ''i-1''" "id' ?b = Some ''db-1''"
    "creation ?i = 0" "creation ?b = 0"
    by (simp_all add: running_instance_def available_db_def ec2_record_def rds_record_def
        new_resource_def)
  have m: "fst (getMetric (cpu_env 1) ''us-east-1'' ''AWS/EC2'' ''CPUUtilization''
                  [(''InstanceId'', id' ?i)] ''Average'' 1) = Inr 1"
    "fst (getMetric (cpu_env 1) ''us-east-1'' ''AWS/EC2'' ''CPUUtilization''
                  [(''InstanceId'', id' ?i)] ''Average'' 30) = Inr 1"
    "fst (getMetric (cpu_env 1) ''us-east-1'' ''AWS/RDS'' ''CPUUtilization''
                  [(''DBInstanceIdentifier'', id' ?b)] ''Average'' 1) = Inr 1"
    "fst (getMetric (cpu_env 1) ''us-east-1'' ''AWS/RDS'' ''CPUUtilization''
                  [(''DBInstanceIdentifier'', id' ?b)] ''Average'' 30) = Inr 1"
    by (simp_all add: cpu_env_def ec2_env_def quiet_env_def prov_defs helper_defs)
  note T = cpu_thresholds[where e = "cpu_env 1" and svc = "''rds''" and rgn = "''us-east-1''"
      and rs = "[]" and t = 0 and r = ?d and unused = "[?r, ?d]" and longIdle = "[]"
      and ns = "''AWS/RDS''" and dname = "''DBInstanceIdentifier''"
      and inst = ?i and db = ?b and eng = "''postgres''" and rg = "''us-east-1''"
      and q = 1 and q' = 1 and m = 1 and m' = 1 and ?t0.0 = 0 and T = ?T
      and u = "[]" and l = "[]"]
  have h1: "((fst (fetchServiceResources (cpu_env 1) ''rds'' ''us-east-1'') = Inr ([], 0)
         \<and> ?d \<in> set [])
      \<or> (fst (scan_resources (cpu_env 1)) = Inr ([?r, ?d], [])
          \<and> (?d \<in> set [?r, ?d] \<or> ?d \<in> set [])))
     \<and> ((service ?d = ''ec2'' \<and> state ?d = Some ''running''
            \<and> ''AWS/RDS'' = ''AWS/EC2'' \<and> ''DBInstanceIdentifier'' = ''InstanceId'')
         \<or> (service ?d = ''rds'' \<and> state ?d = Some ''available''
            \<and> ''AWS/RDS'' = ''AWS/RDS'' \<and> ''DBInstanceIdentifier'' = ''DBInstanceIdentifier''))"
    using s1 st by simp
  from mp[OF conjunct1[OF T] h1] st
  have c1: "\<exists>p. fst (getMetric (cpu_env 1) ''us-east-1'' ''AWS/RDS'' ''CPUUtilization''
                  [(''DBInstanceIdentifier'', Some ''db-1'')] ''Average'' 1) = Inr p \<and> p = 1"
    by auto
  have h2: "state ?i = Some ''running''
       \<and> fst (getMetric (cpu_env 1) ''us-east-1'' ''AWS/EC2'' ''CPUUtilization''
                 [(''InstanceId'', id' ?i)] ''Average'' 1) = Inr 1"
    by (intro conjI st m)
  have h3: "state ?b = Some ''available'' \<and> engine ?b = Some ''postgres''
       \<and> fst (getMetric (cpu_env 1) ''us-east-1'' ''AWS/RDS'' ''CPUUtilization''
                 [(''DBInstanceIdentifier'', id' ?b)] ''Average'' 1) = Inr 1"
    by (intro conjI st m)
  have h4: "state ?i = Some ''running''
       \<and> fst (getMetric (cpu_env 1) ''us-east-1'' ''AWS/EC2'' ''CPUUtilization''
                 [(''InstanceId'', id' ?i)] ''Average'' 1) = Inr 1
       \<and> fst (getMetric (cpu_env 1) ''us-east-1'' ''AWS/EC2'' ''CPUUtilization''
                 [(''InstanceId'', id' ?i)] ''Average'' 30) = Inr 1"
    by (intro conjI st m)
  have h5: "state ?b = Some ''available'' \<and> engine ?b = Some ''postgres''
       \<and> fst (getMetric (cpu_env 1) ''us-east-1'' ''AWS/RDS'' ''CPUUtilization''
                 [(''DBInstanceIdentifier'', id' ?b)] ''Average'' 1) = Inr 1
       \<and> fst (getMetric (cpu_env 1) ''us-east-1'' ''AWS/RDS'' ''CPUUtilization''
                 [(''DBInstanceIdentifier'', id' ?b)] ''Average'' 30) = Inr 1"
    by (intro conjI st m)
  from mp[OF conjunct1[OF conjunct2[OF T]] h2]
  have c2: "\<exists>inst' t'. fst (fetch_ec2_instance (cpu_env 1) ''us-east-1'' ?i 0) = Inr (inst', t')
          \<and> avgCpu inst' = Some 1 \<and> usageStatus inst' = ''underutilized''"
    by auto
  from mp[OF conjunct1[OF conjunct2[OF conjunct2[OF T]]] h3]
  have c3: "\<exists>db' t'. fst (fetch_rds_instance (cpu_env 1) ''us-east-1'' ?b 0) = Inr (db', t')
          \<and> avgCpu db' = Some 1 \<and> usageStatus db' = ''underutilized''"
    by auto
  from mp[OF conjunct1[OF conjunct2[OF conjunct2[OF conjunct2[OF T]]]] h4]
  have c4: "\<exists>inst'. fst (scan_ec2_step (cpu_env 1) ''us-east-1'' ?T ?i ([], []))
                 = Inr ([inst'], [])
          \<and> avgCpu inst' = Some 1 \<and> usageStatus inst' = ''underutilized''"
    by auto
  from mp[OF conjunct2[OF conjunct2[OF conjunct2[OF conjunct2[OF T]]]] h5]
  have c5: "\<exists>db'. fst (scan_rds_step (cpu_env 1) ''us-east-1'' ?T ?b ([], []))
                 = Inr ([db'], [])
          \<and> avgCpu db' = Some 1 \<and> usageStatus db' = ''underutilized''"
    by auto
  show ?thesis
    by (intro conjI; (rule s1 s0 s10 f10 g10 c1 c2 c3 c4 c5))
qed

text \<open>
  Claim C2, as amended. Every record in \<open>longIdleResources\<close> was created more than 30
  days before the scan, so never 5 days before it, and it is stopped, or its 30-day
  aggregate shows no activity (CPU average below 1 for a compute instance or database,
  no invocation for a function, no object for a bucket), or it is a block volume in the
  state \<open>available\<close>. The claim as stated leaves the block volumes out: an unattached
  volume is listed although it is not stopped and has no 30-day aggregate.
\<close>

theorem long_idle_only_if:
  assumes "fst (scan_resources e) = Inr (unused, longIdle)" and "r \<in> set longIdle"
  shows "creation r < now e - 30 * 24 * 60 * 60 * 1000
         \<and> (state r = Some ''stopped'' \<or> no_activity_30d e r
            \<or> (service r = ''ebs'' \<and> state r = Some ''available''))
         \<and> creation r \<noteq> now e - 5 * 24 * 60 * 60 * 1000"
proof -
  from scan_resources_invariant[OF assms(1)] assms(2) have "long_idle_found e r"
    by (simp add: scan_invariant_def)
  then show ?thesis by (auto simp: long_idle_found_def claimed_long_idle_def)
qed

theorem long_idle_volume_counterexample:
  "fst (scan_resources (ebs_env [old_volume]))
     = Inr ([ebs_record ''ebs'' ''us-east-1'' old_volume],
            [ebs_record ''ebs'' ''us-east-1'' old_volume])
   \<and> \<not> claimed_long_idle (ebs_env [old_volume]) (ebs_record ''ebs'' ''us-east-1'' old_volume)"
proof -
  have "fst (scan_resources (ebs_env [old_volume]))
     = Inr ([ebs_record ''ebs'' ''us-east-1'' old_volume],
            [ebs_record ''ebs'' ''us-east-1'' old_volume])"
    by (simp add: scan_resources_def scan_service_def services_def thirtyDaysAgo_of_def
        ebs_env_def quiet_env_def prov_defs helper_defs scan_ebs_step_def old_volume_def)
  moreover have "\<not> claimed_long_idle (ebs_env [old_volume]) (ebs_record ''ebs'' ''us-east-1'' old_volume)"
    by (simp add: claimed_long_idle_def no_activity_30d_def old_volume_def)
  ultimately show ?thesis by simp
qed

theorem long_idle_only_if_witness:
  "fst (scan_resources (ec2_env [stopped_instance]))
       = Inr ([(ec2_record ''ec2'' ''us-east-1'' stopped_instance)
                 \<lparr>usageStatus := ''stopped'', monthlyCost := 0\<rparr>],
              [(ec2_record ''ec2'' ''us-east-1'' stopped_instance)
                 \<lparr>usageStatus := ''stopped'', monthlyCost := 0\<rparr>])
   \<and> creation ((ec2_record ''ec2'' ''us-east-1'' stopped_instance)
                 \<lparr>usageStatus := ''stopped'', monthlyCost := 0\<rparr>)
       < now (ec2_env [stopped_instance]) - 30 * 24 * 60 * 60 * 1000"
proof -
  let ?r = "(ec2_record ''ec2'' ''us-east-1'' stopped_instance)
                 \<lparr>usageStatus := ''stopped'', monthlyCost := 0\<rparr>"
  have s: "fst (scan_resources (ec2_env [stopped_instance])) = Inr ([?r], [?r])"
    by (simp add: scan_resources_def scan_service_def services_def thirtyDaysAgo_of_def
        ec2_env_def quiet_env_def prov_defs helper_defs
        scan_ec2_step_def scan_ec2_instance_def stopped_instance_def ec2_record_def new_resource_def)
  from long_idle_only_if[OF s, of ?r] s show ?thesis by simp
qed







text \<open>
  Claim C5. A scan that ends its loops with an empty \<open>longIdleResources\<close> never calls
  \<open>sendNotification\<close>; with a non-empty list it calls it exactly once, with that list
  (and not as a manual trigger). Both hold for \<open>/api/scan\<close> and for the scheduled job;
  a scan that throws before its loops end does not call it either.
\<close>

theorem notifier_invocations:
  "(fst (scan_resources e) = Inr (unused, longIdle) \<and> longIdle = [] \<longrightarrow>
      notifications (snd (snd (api_scan e srv))) = []
      \<and> notifications (snd (scheduled_scan e srv)) = [])
   \<and> (fst (scan_resources e) = Inr (unused, longIdle) \<and> longIdle \<noteq> [] \<longrightarrow>
      notifications (snd (snd (api_scan e srv))) = [(longIdle, False)]
      \<and> notifications (snd (scheduled_scan e srv)) = [(longIdle, False)])
   \<and> (fst (scan_resources e) = Inl err \<longrightarrow>
      notifications (snd (snd (api_scan e srv))) = []
      \<and> notifications (snd (scheduled_scan e srv)) = [])"
proof -
  obtain res cs where x: "scan_resources e = (res, cs)" by (cases "scan_resources e")
  obtain out evs where n: "sendNotification e longIdle False = (out, evs)"
    by (cases "sendNotification e longIdle False")
  have evs: "notifications evs = [(longIdle, False)]"
    using notifications_sendNotification[of e longIdle False] n by simp
  show ?thesis
  proof (cases res)
    case (Inl a)
    with x show ?thesis by (simp add: api_scan_def scheduled_scan_def)
  next
    case (Inr acc)
    with x show ?thesis
      by (cases out) (auto simp: api_scan_def scheduled_scan_def n evs Let_def)
  qed
qed

theorem notifier_invocations_witness:
  "fst (scan_resources quiet_env) = Inr ([], [])
   \<and> notifications (snd (snd (api_scan quiet_env \<lparr>lastUnusedResources = []\<rparr>))) = []
   \<and> notifications (snd (scheduled_scan quiet_env \<lparr>lastUnusedResources = []\<rparr>)) = []
   \<and> fst (scan_resources (ec2_env [stopped_instance]))
       = Inr ([(ec2_record ''ec2'' ''us-east-1'' stopped_instance)
                 \<lparr>usageStatus := ''stopped'', monthlyCost := 0\<rparr>],
              [(ec2_record ''ec2'' ''us-east-1'' stopped_instance)
                 \<lparr>usageStatus := ''stopped'', monthlyCost := 0\<rparr>])
   \<and> notifications (snd (snd (api_scan (ec2_env [stopped_instance]) \<lparr>lastUnusedResources = []\<rparr>)))
       = [([(ec2_record ''ec2'' ''us-east-1'' stopped_instance)
              \<lparr>usageStatus := ''stopped'', monthlyCost := 0\<rparr>], False)]
   \<and> notifications (snd (scheduled_scan (ec2_env [stopped_instance]) \<lparr>lastUnusedResources = []\<rparr>))
       = [([(ec2_record ''ec2'' ''us-east-1'' stopped_instance)
              \<lparr>usageStatus := ''stopped'', monthlyCost := 0\<rparr>], False)]
   \<and> fst (scan_resources failing_env) = Inl (Error ''AuthFailure'' ''not authorized'')
   \<and> notifications (snd (snd (api_scan failing_env \<lparr>lastUnusedResources = []\<rparr>))) = []"
proof -
  let ?r = "(ec2_record ''ec2'' ''us-east-1'' stopped_instance)
                 \<lparr>usageStatus := ''stopped'', monthlyCost := 0\<rparr>"
  have q: "fst (scan_resources quiet_env) = Inr ([], [])"
    by (simp add: scan_resources_def scan_service_def services_def thirtyDaysAgo_of_def
        quiet_env_def prov_defs helper_defs)
  have s: "fst (scan_resources (ec2_env [stopped_instance])) = Inr ([?r], [?r])"
    by (simp add: scan_resources_def scan_service_def services_def thirtyDaysAgo_of_def
        ec2_env_def quiet_env_def prov_defs helper_defs
        scan_ec2_step_def scan_ec2_instance_def stopped_instance_def ec2_record_def new_resource_def)
  have f: "fst (scan_resources failing_env) = Inl (Error ''AuthFailure'' ''not authorized'')"
    by (simp add: scan_resources_def failing_env_def quiet_env_def prov_defs helper_defs)
  from notifier_invocations[of quiet_env "[]" "[]" "\<lparr>lastUnusedResources = []\<rparr>"]
    notifier_invocations[of "ec2_env [stopped_instance]" "[?r]" "[?r]"
      "\<lparr>lastUnusedResources = []\<rparr>"]
    notifier_invocations[of failing_env "[]" "[]" "\<lparr>lastUnusedResources = []\<rparr>"
      "Error ''AuthFailure'' ''not authorized''"] q s f
  show ?thesis by simp
qed

text \<open>
  Claim C6. For a stopped compute instance or database the loop body, on demand and in
  the scan, sets the status \<open>stopped\<close> and the cost 0 and sends no request at all, so no
  price query, whatever the record's type or engine; and every stopped compute instance
  or database record that a fetch returns or a scan collects has \<open>monthlyCost\<close> 0.
\<close>

theorem stopped_costs_nothing:
  assumes "state inst = Some ''stopped''"
  shows "fetch_ec2_instance e rgn inst t
           = (Inr (inst\<lparr>usageStatus := ''stopped'', monthlyCost := 0\<rparr>, t), [])
         \<and> fetch_rds_instance e rgn inst t
           = (Inr (inst\<lparr>usageStatus := ''stopped'', monthlyCost := 0\<rparr>, t), [])
         \<and> scan_ec2_instance e rgn inst
           = (Inr (inst\<lparr>usageStatus := ''stopped'', monthlyCost := 0\<rparr>, 0), [])
         \<and> scan_rds_instance e rgn inst
           = (Inr (inst\<lparr>usageStatus := ''stopped'', monthlyCost := 0\<rparr>, 0), [])
         \<and> (((fst (fetchServiceResources e svc rgn) = Inr (rs, tot) \<and> r \<in> set rs)
              \<or> (fst (scan_resources e) = Inr (unused, longIdle)
                  \<and> (r \<in> set unused \<or> r \<in> set longIdle)))
             \<and> (service r = ''ec2'' \<or> service r = ''rds'') \<and> state r = Some ''stopped''
            \<longrightarrow> monthlyCost r = 0 \<and> usageStatus r = ''stopped'')"
proof -
  have "fetch_ec2_instance e rgn inst t
           = (Inr (inst\<lparr>usageStatus := ''stopped'', monthlyCost := 0\<rparr>, t), [])"
    using assms by (simp add: fetch_ec2_instance_def return_prov_def)
  moreover have "fetch_rds_instance e rgn inst t
           = (Inr (inst\<lparr>usageStatus := ''stopped'', monthlyCost := 0\<rparr>, t), [])"
    using assms by (simp add: fetch_rds_instance_def return_prov_def)
  moreover have "scan_ec2_instance e rgn inst
           = (Inr (inst\<lparr>usageStatus := ''stopped'', monthlyCost := 0\<rparr>, 0), [])"
    using assms by (simp add: scan_ec2_instance_def return_prov_def)
  moreover have "scan_rds_instance e rgn inst
           = (Inr (inst\<lparr>usageStatus := ''stopped'', monthlyCost := 0\<rparr>, 0), [])"
    using assms by (simp add: scan_rds_instance_def return_prov_def)
  moreover have "monthlyCost r = 0 \<and> usageStatus r = ''stopped''"
    if m: "(fst (fetchServiceResources e svc rgn) = Inr (rs, tot) \<and> r \<in> set rs)
              \<or> (fst (scan_resources e) = Inr (unused, longIdle)
                  \<and> (r \<in> set unused \<or> r \<in> set longIdle))"
      and k: "service r = ''ec2'' \<or> service r = ''rds''" and s: "state r = Some ''stopped''"
    using classified_stopped[OF produced_classified[OF m] k s] by simp
  ultimately show ?thesis by blast
qed

theorem stopped_costs_nothing_witness:
  "state (ec2_record ''ec2'' ''us-east-1'' stopped_instance) = Some ''stopped''
   \<and> snd (fetch_ec2_instance (ec2_env [stopped_instance]) ''us-east-1''
            (ec2_record ''ec2'' ''us-east-1'' stopped_instance) 0) = []
   \<and> fst (fetchServiceResources (ec2_env [stopped_instance]) ''ec2'' ''us-east-1'')
       = Inr ([(ec2_record ''ec2'' ''us-east-1'' stopped_instance)
                 \<lparr>usageStatus := ''stopped'', monthlyCost := 0\<rparr>], 0)
   \<and> monthlyCost ((ec2_record ''ec2'' ''us-east-1'' stopped_instance)
                 \<lparr>usageStatus := ''stopped'', monthlyCost := 0\<rparr>) = 0
   \<and> snd (fetchServiceResources (ec2_env [stopped_instance]) ''ec2'' ''us-east-1'')
       = [DescribeInstances ''us-east-1'']"
proof -
  let ?x = "ec2_record ''ec2'' ''us-east-1'' stopped_instance"
  let ?r = "?x\<lparr>usageStatus := ''stopped'', monthlyCost := 0\<rparr>"
  have st: "state ?x = Some ''stopped''" by (simp add: stopped_instance_def)
  have ev: "fetchServiceResources (ec2_env [stopped_instance]) ''ec2'' ''us-east-1''
              = (Inr ([?r], 0), [DescribeInstances ''us-east-1''])"
    by (simp add: fetchServiceResources_def ec2_env_def quiet_env_def prov_defs visit_def
        fetch_ec2_instance_def stopped_instance_def ec2_record_def new_resource_def)
  from stopped_costs_nothing[OF st, of "ec2_env [stopped_instance]" "''us-east-1''" 0
      "''ec2''" "[?r]" 0 ?r "[]" "[]"] ev st
  show ?thesis by simp
qed

text \<open>
  Claim C7. For a function whose one-day invocation sum is \<open>i \<ge> 0\<close>, the loop body, on
  demand and in the scan, returns a record whose \<open>monthlyCost\<close> is 0 when \<open>i = 0\<close> and
  \<open>(i * 0.0000002 + ((d / 1000) * i * (memory / 1024)) * 0.0000166667) * 30\<close> when
  \<open>i > 0\<close>, where \<open>d\<close> is the average duration in milliseconds. The cost is 0 exactly
  when \<open>i = 0\<close>, a duration being non-negative. With 1000 invocations of 200 ms at
  512 MB the cost is 0.0560001, within 0.00001 of 0.0560.
\<close>

theorem lambda_cost:
  assumes inv: "fst (getMetric e rgn ''AWS/Lambda'' ''Invocations''
                       [(''FunctionName'', Some (FunctionName raw))] ''Sum'' 1) = Inr i"
    and dur: "0 < i \<Longrightarrow> fst (getMetric e rgn ''AWS/Lambda'' ''Duration''
                       [(''FunctionName'', Some (FunctionName raw))] ''Average'' 1) = Inr d"
    and nonneg: "0 \<le> i"
  shows "(\<exists>fn' t'. fst (fetch_lambda_function e rgn (lambda_record svc rgn raw) t) = Inr (fn', t')
            \<and> (i = 0 \<longrightarrow> monthlyCost fn' = 0)
            \<and> (0 < i \<longrightarrow>
                 monthlyCost fn' =
                   (i * 0.0000002
                    + ((d / 1000) * i * (real (MemorySize raw) / 1024)) * 0.0000166667) * 30)
            \<and> (0 \<le> d \<longrightarrow> (monthlyCost fn' = 0 \<longleftrightarrow> i = 0))
            \<and> (i = 1000 \<and> d = 200 \<and> MemorySize raw = 512 \<longrightarrow>
                 \<bar>monthlyCost fn' - 0.0560\<bar> < 0.00001))
         \<and> (\<exists>fn'. fst (scan_lambda_function e rgn (lambda_record svc rgn raw)) = Inr fn'
            \<and> (i = 0 \<longrightarrow> monthlyCost fn' = 0)
            \<and> (0 < i \<longrightarrow>
                 monthlyCost fn' =
                   (i * 0.0000002
                    + ((d / 1000) * i * (real (MemorySize raw) / 1024)) * 0.0000166667) * 30)
            \<and> (0 \<le> d \<longrightarrow> (monthlyCost fn' = 0 \<longleftrightarrow> i = 0))
            \<and> (i = 1000 \<and> d = 200 \<and> MemorySize raw = 512 \<longrightarrow>
                 \<bar>monthlyCost fn' - 0.0560\<bar> < 0.00001))"
proof (cases "0 < i")
  case True
  let ?c = "(i * 0.0000002
              + ((d / 1000) * i * (real (MemorySize raw) / 1024)) * 0.0000166667) * 30"
  let ?fn = "(lambda_record svc rgn raw)
               \<lparr>invocations := Some i, usageStatus := ''used'', monthlyCost := ?c\<rparr>"
  have f: "fst (fetch_lambda_function e rgn (lambda_record svc rgn raw) t) = Inr (?fn, t + ?c)"
    using inv dur[OF True] True
    by (simp add: fetch_lambda_function_def fst_bind_prov_case Let_def num_def)
  have s: "fst (scan_lambda_function e rgn (lambda_record svc rgn raw)) = Inr ?fn"
    using inv dur[OF True] True
    by (simp add: scan_lambda_function_def fst_bind_prov_case Let_def num_def)
  have pos: "0 \<le> d \<Longrightarrow> 0 < ?c" by (rule function_cost_positive[OF True])
  have c: "monthlyCost ?fn = ?c" by simp
  have k: "(i = 0 \<longrightarrow> monthlyCost ?fn = 0)
            \<and> (0 < i \<longrightarrow> monthlyCost ?fn = ?c)
            \<and> (0 \<le> d \<longrightarrow> (monthlyCost ?fn = 0 \<longleftrightarrow> i = 0))
            \<and> (i = 1000 \<and> d = 200 \<and> MemorySize raw = 512 \<longrightarrow>
                 \<bar>monthlyCost ?fn - 0.0560\<bar> < 0.00001)"
    unfolding c using pos True by auto
  from f k have "\<exists>fn' t'. fst (fetch_lambda_function e rgn (lambda_record svc rgn raw) t) = Inr (fn', t')
            \<and> (i = 0 \<longrightarrow> monthlyCost fn' = 0)
            \<and> (0 < i \<longrightarrow> monthlyCost fn' = ?c)
            \<and> (0 \<le> d \<longrightarrow> (monthlyCost fn' = 0 \<longleftrightarrow> i = 0))
            \<and> (i = 1000 \<and> d = 200 \<and> MemorySize raw = 512 \<longrightarrow>
                 \<bar>monthlyCost fn' - 0.0560\<bar> < 0.00001)"
    by (intro exI[of _ ?fn] exI[of _ "t + ?c"] conjI) simp_all
  moreover from s k have "\<exists>fn'. fst (scan_lambda_function e rgn (lambda_record svc rgn raw)) = Inr fn'
            \<and> (i = 0 \<longrightarrow> monthlyCost fn' = 0)
            \<and> (0 < i \<longrightarrow> monthlyCost fn' = ?c)
            \<and> (0 \<le> d \<longrightarrow> (monthlyCost fn' = 0 \<longleftrightarrow> i = 0))
            \<and> (i = 1000 \<and> d = 200 \<and> MemorySize raw = 512 \<longrightarrow>
                 \<bar>monthlyCost fn' - 0.0560\<bar> < 0.00001)"
    by (intro exI[of _ ?fn] conjI) simp_all
  ultimately show ?thesis by (rule conjI)
next
  case False
  with nonneg have i: "i = 0" by simp
  let ?fn = "(lambda_record svc rgn raw)\<lparr>invocations := Some i, usageStatus := ''idle''\<rparr>"
  have f: "fst (fetch_lambda_function e rgn (lambda_record svc rgn raw) t) = Inr (?fn, t)"
    using inv i by (simp add: fetch_lambda_function_def fst_bind_prov_case Let_def)
  have s: "fst (scan_lambda_function e rgn (lambda_record svc rgn raw)) = Inr ?fn"
    using inv i by (simp add: scan_lambda_function_def fst_bind_prov_case Let_def)
  have c: "monthlyCost ?fn = 0" by simp
  from f c i have "\<exists>fn' t'. fst (fetch_lambda_function e rgn (lambda_record svc rgn raw) t) = Inr (fn', t')
            \<and> (i = 0 \<longrightarrow> monthlyCost fn' = 0)
            \<and> (0 < i \<longrightarrow> monthlyCost fn' = (i * 0.0000002
                    + ((d / 1000) * i * (real (MemorySize raw) / 1024)) * 0.0000166667) * 30)
            \<and> (0 \<le> d \<longrightarrow> (monthlyCost fn' = 0 \<longleftrightarrow> i = 0))
            \<and> (i = 1000 \<and> d = 200 \<and> MemorySize raw = 512 \<longrightarrow>
                 \<bar>monthlyCost fn' - 0.0560\<bar> < 0.00001)"
    by (intro exI[of _ ?fn] exI[of _ t] conjI) simp_all
  moreover from s c i have "\<exists>fn'. fst (scan_lambda_function e rgn (lambda_record svc rgn raw)) = Inr fn'
            \<and> (i = 0 \<longrightarrow> monthlyCost fn' = 0)
            \<and> (0 < i \<longrightarrow> monthlyCost fn' = (i * 0.0000002
                    + ((d / 1000) * i * (real (MemorySize raw) / 1024)) * 0.0000166667) * 30)
            \<and> (0 \<le> d \<longrightarrow> (monthlyCost fn' = 0 \<longleftrightarrow> i = 0))
            \<and> (i = 1000 \<and> d = 200 \<and> MemorySize raw = 512 \<longrightarrow>
                 \<bar>monthlyCost fn' - 0.0560\<bar> < 0.00001)"
    by (intro exI[of _ ?fn] conjI) simp_all
  ultimately show ?thesis by (rule conjI)
qed

theorem lambda_cost_witness:
  "fst (getMetric lambda_env ''us-east-1'' ''AWS/Lambda'' ''Invocations''
          [(''FunctionName'', Some (FunctionName demo_function))] ''Sum'' 1) = Inr 1000
   \<and> fst (getMetric lambda_env ''us-east-1'' ''AWS/Lambda'' ''Duration''
          [(''FunctionName'', Some (FunctionName demo_function))] ''Average'' 1) = Inr 200
   \<and> MemorySize demo_function = 512
   \<and> (\<exists>fn' t'. fst (fetch_lambda_function lambda_env ''us-east-1''
                      (lambda_record ''lambda'' ''us-east-1'' demo_function) 0) = Inr (fn', t')
         \<and> monthlyCost fn' = 560001 / 10000000
         \<and> \<bar>monthlyCost fn' - 0.0560\<bar> < 0.00001)"
proof -
  have i: "fst (getMetric lambda_env ''us-east-1'' ''AWS/Lambda'' ''Invocations''
          [(''FunctionName'', Some (FunctionName demo_function))] ''Sum'' 1) = Inr 1000"
    by (simp add: lambda_env_def quiet_env_def helper_defs prov_defs)
  have d: "fst (getMetric lambda_env ''us-east-1'' ''AWS/Lambda'' ''Duration''
          [(''FunctionName'', Some (FunctionName demo_function))] ''Average'' 1) = Inr 200"
    by (simp add: lambda_env_def quiet_env_def helper_defs prov_defs)
  have m: "MemorySize demo_function = 512" by (simp add: demo_function_def)
  from lambda_cost[OF i d, of "''lambda''" 0] m
  obtain fn' t' where
    "fst (fetch_lambda_function lambda_env ''us-east-1''
            (lambda_record ''lambda'' ''us-east-1'' demo_function) 0) = Inr (fn', t')"
    "monthlyCost fn' = (1000 * 0.0000002 + ((200 / 1000) * 1000 * (real 512 / 1024)) * 0.0000166667) * 30"
    "\<bar>monthlyCost fn' - 0.0560\<bar> < 0.00001"
    by auto
  with i d m show ?thesis by (intro conjI exI[of _ fn'] exI[of _ t']) simp_all
qed

text \<open>
  Claim C8. Whenever the metrics service answers a query with at least one result,
  \<open>getMetric\<close> returns the sum of that result's samples when the statistic is
  \<open>Sum\<close> and their mean, computed locally, otherwise (so for \<open>Average\<close>); both are
  0 when there are no samples. It sends exactly one request, whose sampling period is
  3600 seconds when the lookback is at most one day and 86400 seconds otherwise.
\<close>

theorem getMetric_statistic:
  assumes "getMetricData e cwRegion (getMetric_params e ns mn dims stat days) = Inr (r # rest)"
  shows "fst (getMetric e cwRegion ns mn dims stat days) =
           Inr (let values = (case r of None \<Rightarrow> [] | Some vs \<Rightarrow> vs)
                in if stat = ''Sum'' then sum_list values
                   else if values = [] then 0 else sum_list values / real (length values))
         \<and> snd (getMetric e cwRegion ns mn dims stat days) =
             [GetMetricData cwRegion (getMetric_params e ns mn dims stat days)]
         \<and> Period (getMetric_params e ns mn dims stat days) = (if days \<le> 1 then 3600 else 86400)"
  using assms
  by (simp add: getMetric_def getMetric_params_def Let_def bind_prov_def send_prov_def
      return_prov_def foldl_add_sum_list)

theorem getMetric_statistic_witness:
  "getMetricData quiet_env ''us-east-1''
       (getMetric_params quiet_env ''AWS/EC2'' ''CPUUtilization'' [] ''Average'' 30)
     = Inr [Some [2, 4]]
   \<and> fst (getMetric quiet_env ''us-east-1'' ''AWS/EC2'' ''CPUUtilization'' [] ''Average'' 30) = Inr 3
   \<and> Period (getMetric_params quiet_env ''AWS/EC2'' ''CPUUtilization'' [] ''Average'' 30) = 86400"
  using getMetric_statistic [of quiet_env "''us-east-1''" "''AWS/EC2''" "''CPUUtilization''" "[]"
      "''Average''" 30 "Some [2, 4]" "[]"]
  by (simp add: quiet_env_def)

text \<open>
  Claim C9. \<open>getHourlyPrice\<close> always returns a number and never throws; the number
  is 0 when the product query fails, when its price list is empty, and when the first
  entry of the list cannot be read.
\<close>

theorem getHourlyPrice_total:
  "(\<exists>p. fst (getHourlyPrice e sc fs) = Inr p)
   \<and> ((\<exists>err. getProducts e (getHourlyPrice_params sc fs) = Inl err)
        \<or> getProducts e (getHourlyPrice_params sc fs) = Inr []
        \<or> (\<exists>err rest. getProducts e (getHourlyPrice_params sc fs) = Inr (Unparsable err # rest))
      \<longrightarrow> fst (getHourlyPrice e sc fs) = Inr 0)"
  by (auto simp: getHourlyPrice_def getHourlyPrice_try_def bind_prov_def send_prov_def
      try_prov_def return_prov_def throw_prov_def
      split: sum.splits list.splits price_item.splits option.splits prod.splits)

theorem getHourlyPrice_total_witness:
  "getProducts (quiet_env\<lparr>getProducts := (\<lambda>params. Inl (Error ''ThrottlingException'' ''Rate exceeded''))\<rparr>)
       (getHourlyPrice_params ''AmazonEC2'' [])
     = Inl (Error ''ThrottlingException'' ''Rate exceeded'')
   \<and> fst (getHourlyPrice
            (quiet_env\<lparr>getProducts := (\<lambda>params. Inl (Error ''ThrottlingException'' ''Rate exceeded''))\<rparr>)
            ''AmazonEC2'' []) = Inr 0"
  using getHourlyPrice_total
    [of "quiet_env\<lparr>getProducts := (\<lambda>params. Inl (Error ''ThrottlingException'' ''Rate exceeded''))\<rparr>"
      "''AmazonEC2''" "[]"]
  by (simp add: quiet_env_def)




end
